theory Spec2Isabelle
  imports Main
begin

section \<open>Python values used by the main window\<close>

text \<open>
  The model follows \<^verbatim>\<open>src/gns3/main_window.py\<close>. A method of \<^verbatim>\<open>MainWindow\<close> becomes a
  function from the window's fields (and the answers of its collaborators) to the value the
  method hands back, the updated fields and the list of effects it performed, in order.
\<close>

text \<open>The exceptions that escape a method. A \<^verbatim>\<open>None\<close> handed to \<^verbatim>\<open>os.path\<close>, \<^verbatim>\<open>open\<close> or
  \<^verbatim>\<open>os.walk\<close> raises; the model calls that exception \<open>TypeError\<close>.\<close>

datatype exn = KeyError | TypeError | IndexError

text \<open>What a method hands back: \<^verbatim>\<open>None\<close> (a bare \<^verbatim>\<open>return\<close>), \<^verbatim>\<open>False\<close> or \<^verbatim>\<open>True\<close>.\<close>

datatype py_ret = RNone | RBool bool

datatype 'a outcome = Returned 'a | Raised exn

fun truthy :: "py_ret outcome \<Rightarrow> bool" where
  "truthy (Returned (RBool b)) = b"
| "truthy (Returned RNone) = False"
| "truthy (Raised e) = False"

text \<open>Truth value of an optional string: \<^verbatim>\<open>None\<close> and \<^verbatim>\<open>""\<close> are false.\<close>

fun truthy_str :: "string option \<Rightarrow> bool" where
  "truthy_str None = False"
| "truthy_str (Some s) = (s \<noteq> [])"

datatype json =
    JNull
  | JBool bool
  | JNum int
  | JStr string
  | JArr "json list"
  | JObj "(string \<times> json) list"

text \<open>\<^verbatim>\<open>json_topology[key]\<close>: a missing key raises KeyError, a value that is no object raises
  TypeError.\<close>

fun json_getitem :: "json \<Rightarrow> string \<Rightarrow> json outcome" where
  "json_getitem (JObj kvs) key =
     (case map_of kvs key of None \<Rightarrow> Raised KeyError | Some v \<Rightarrow> Returned v)"
| "json_getitem j key = Raised TypeError"

section \<open>Strings and paths\<close>

definition endswith :: "string \<Rightarrow> string \<Rightarrow> bool" where
  "endswith s suf = (length suf \<le> length s \<and> drop (length s - length suf) s = suf)"

text \<open>\<^verbatim>\<open>s[:-n]\<close> for a positive \<^verbatim>\<open>n\<close>.\<close>

definition drop_last :: "nat \<Rightarrow> string \<Rightarrow> string" where
  "drop_last n s = take (length s - n) s"

text \<open>\<^verbatim>\<open>"\n".join(xs)\<close>.\<close>

fun join_lines :: "string list \<Rightarrow> string" where
  "join_lines [] = []"
| "join_lines [x] = x"
| "join_lines (x # y # ys) = x @ CHR 0x0A # join_lines (y # ys)"

text \<open>\<^verbatim>\<open>str.replace(old, new)\<close>: every occurrence, left to right, without overlap; an empty
  \<^verbatim>\<open>old\<close> matches before every character and at the end.\<close>

fun replace_from :: "string \<Rightarrow> string \<Rightarrow> nat \<Rightarrow> string \<Rightarrow> string" where
  "replace_from old new skip [] = []"
| "replace_from old new skip (c # s) =
     (if 0 < skip then replace_from old new (skip - 1) s
      else if take (length old) (c # s) = old
        then new @ replace_from old new (length old - 1) s
      else c # replace_from old new 0 s)"

definition str_replace :: "string \<Rightarrow> string \<Rightarrow> string \<Rightarrow> string" where
  "str_replace old new s =
     (if old = [] then new @ concat (map (\<lambda>c. c # new) s)
      else replace_from old new 0 s)"

text \<open>\<^verbatim>\<open>os.path\<close> on a POSIX system (\<^verbatim>\<open>posixpath\<close>).\<close>

definition basename :: "string \<Rightarrow> string" where
  "basename p = rev (takeWhile (\<lambda>c. c \<noteq> CHR ''/'') (rev p))"

definition rstrip_slash :: "string \<Rightarrow> string" where
  "rstrip_slash s = rev (dropWhile (\<lambda>c. c = CHR ''/'') (rev s))"

definition dirname :: "string \<Rightarrow> string" where
  "dirname p =
     (let head = take (length p - length (basename p)) p
      in if head \<noteq> [] \<and> \<not> list_all (\<lambda>c. c = CHR ''/'') head
         then rstrip_slash head else head)"

definition path_join :: "string \<Rightarrow> string \<Rightarrow> string" where
  "path_join a b =
     (if b \<noteq> [] \<and> hd b = CHR ''/'' then b
      else if a = [] \<or> endswith a ''/'' then a @ b
      else a @ ''/'' @ b)"

text \<open>The second component of \<^verbatim>\<open>os.path.splitext(p)\<close>: the text from the last dot of the
  file name, unless only dots precede it there.\<close>

definition splitext_ext :: "string \<Rightarrow> string" where
  "splitext_ext p =
     (let fname = basename p;
          e = rev (takeWhile (\<lambda>c. c \<noteq> CHR ''.'') (rev fname));
          stem = take (length fname - Suc (length e)) fname
      in if CHR ''.'' \<notin> set fname then []
         else if list_all (\<lambda>c. c = CHR ''.'') stem then []
         else CHR ''.'' # e)"

section \<open>The window's project fields\<close>

text \<open>
  \<^verbatim>\<open>_temporary_project\<close>, the four entries of \<^verbatim>\<open>_project_settings\<close>, the window's file
  path and modified flag, and the \<^verbatim>\<open>RecentFiles\<close> array of the persistent settings (the
  stored \<^verbatim>\<open>path\<close> values, in array order).
\<close>

record main_window =
  temporary_project :: bool
  project_name :: string
  project_path :: "string option"
  project_files_dir :: "string option"
  project_type :: string
  window_file_path :: string
  window_modified :: bool
  recent_files_store :: "string list"

text \<open>The fields as \<^verbatim>\<open>__init__\<close> leaves them.\<close>

definition init_window :: "string list \<Rightarrow> main_window" where
  "init_window store =
     \<lparr> temporary_project = True,
       project_name = ''unsaved'',
       project_path = None,
       project_files_dir = None,
       project_type = ''local'',
       window_file_path = [],
       window_modified = False,
       recent_files_store = store \<rparr>"

definition max_recent_files :: nat where
  "max_recent_files = 5"

section \<open>Recent files\<close>

text \<open>\<^verbatim>\<open>_updateRecentFileSettings\<close>: read the stored paths (skipping empty ones), remove the
  first occurrence of the new path, put it in front, pop the last entry when more than
  \<^verbatim>\<open>_max_recent_files\<close> remain, and write the list back.\<close>

definition updateRecentFileSettings :: "string \<Rightarrow> string list \<Rightarrow> string list" where
  "updateRecentFileSettings path store =
     (let recent_files = filter (\<lambda>file_path. file_path \<noteq> []) store;
          recent_files = (if path \<in> set recent_files
                          then remove1 path recent_files else recent_files);
          recent_files = path # recent_files;
          recent_files = (if length recent_files > max_recent_files
                          then butlast recent_files else recent_files)
      in recent_files)"

text \<open>\<^verbatim>\<open>_updateRecentFileActions\<close> indexes the \<^verbatim>\<open>_max_recent_files\<close> menu actions by the
  array index of every non-empty stored path: a non-empty path stored at index 5 or beyond
  raises IndexError.\<close>

definition updateRecentFileActions :: "string list \<Rightarrow> unit outcome" where
  "updateRecentFileActions store =
     (if list_ex (\<lambda>file_path. file_path \<noteq> []) (drop max_recent_files store)
      then Raised IndexError else Returned ())"

section \<open>Collaborators\<close>

text \<open>
  The filesystem, the dialogs, the local server, the topology and the converter are not part
  of the window. Their answers are parameters of the model, one field per call of the
  source; every theorem below holds for all of them. A call that changes something outside
  the window is recorded as an \<open>event\<close>. Cursor changes, status-bar texts and log lines
  are left out.
\<close>

datatype mk_result = MkOk | MkExists | MkOSError string

datatype read_result = OpenError string | InvalidJson string | Parsed json

record filesystem =
  isdir :: "string \<Rightarrow> bool"
  isfile :: "string \<Rightarrow> bool"
  access_x :: "string \<Rightarrow> bool"
  makedirs :: "string \<Rightarrow> mk_result"
  mkdir :: "string \<Rightarrow> string option"
  named_temporary_file :: "string + string"
  open_write :: "string \<Rightarrow> string option"
  open_json :: "string \<Rightarrow> read_result"
  walk :: "string \<Rightarrow> (string \<times> string list) list"

text \<open>\<open>mkdir\<close> and \<open>open_write\<close> answer \<open>None\<close> on success and the text of the OSError
  otherwise; \<open>named_temporary_file\<close> answers \<open>Inr name\<close> or \<open>Inl error\<close>; \<open>open_json\<close> is
  \<^verbatim>\<open>open(path)\<close> followed by \<^verbatim>\<open>json.load\<close>; \<open>walk\<close> lists \<^verbatim>\<open>(curpath, dirs)\<close> of
  \<^verbatim>\<open>os.walk\<close>.\<close>

datatype reply = Save | Discard | Cancel

text \<open>The dictionary \<^verbatim>\<open>NewProjectDialog.getNewProjectSettings()\<close> hands back (the dialog is
  not part of the sources at hand; the keys are those of \<^verbatim>\<open>_project_settings\<close>).\<close>

record new_project_settings =
  new_project_name :: string
  new_project_path :: string
  new_project_files_dir :: string
  new_project_type :: string

record dialogs =
  unsaved_reply :: reply
  new_project_dialog :: "new_project_settings option"
  open_dialog :: string
  save_dialog :: "string \<Rightarrow> string option"
  rename_answers :: "(string \<times> bool) list"
  wait_dialog :: bool

text \<open>\<open>new_project_dialog\<close> is \<open>None\<close> when the dialog is rejected; \<open>open_dialog\<close> is the
  chosen path (empty when cancelled); \<open>save_dialog default_name\<close> is the selected directory
  (\<open>None\<close> when rejected); \<open>rename_answers\<close> are the successive \<^verbatim>\<open>(text, ok)\<close> answers of the
  converter's rename prompt, a prompt with no answer left counting as a cancel;
  \<open>wait_dialog\<close> is the result of the progress dialog that waits for the server.\<close>

record servers =
  server_connected :: bool
  server_host :: string
  socket_bind :: "string option"
  server_connect :: "(int option \<times> string) option"
  local_server_auto_start :: bool
  local_server_path :: "string option"
  start_local_server :: bool
  server_reconnect :: "string option"

text \<open>\<open>socket_bind\<close>, \<open>server_connect\<close> and \<open>server_reconnect\<close> answer \<open>None\<close> on success and
  the OSError otherwise; for \<open>server_connect\<close> the error comes with its \<^verbatim>\<open>errno\<close>.\<close>

datatype node_status = Stopped | Started | Suspended

record node =
  node_has_start :: bool
  node_status :: node_status
  node_name :: string

datatype topo_result = TopologyLoaded | TopologyOSError string | TopologyValueError string

datatype conv_result = Converted | ConvertError string | ConvertException string

record collaborators =
  topology_nodes :: "node list"
  topology_load :: "json \<Rightarrow> topo_result"
  transfer_errors :: "string list"
  converter_installed :: bool
  conversion :: "string \<Rightarrow> string \<Rightarrow> string \<Rightarrow> conv_result"
  projects_path :: string
  auto_launch_project_dialog :: bool

record env =
  fs :: filesystem
  ui :: dialogs
  srv :: servers
  ext :: collaborators

datatype event =
    ViewReset
  | ViewResetNew new_project_settings
  | UpdateProjectFilesDir "string option"
  | Critical string string
  | Information string string
  | MessageBox string string string
  | TempFile string
  | Mkdir string
  | Makedirs string
  | Rmtree "string option"
  | Remove string
  | WriteProject string
  | ProcessFiles string string bool
  | TopologyLoad json
  | AddInstances
  | Convert string string string
  | LabInstructions string
  | EmitAboutToClose "string option"
  | EmitNew "string option"
  | GettingStarted
  | SocketBind string
  | ServerConnect
  | StartLocalServer string bool
  | ServerReconnect

text \<open>\<open>ProcessFiles src dst move\<close> is one run of \<^verbatim>\<open>ProcessFilesThread(src, dst, move)\<close> under
  its progress dialog; \<open>StartLocalServer path ok\<close> is one call of \<^verbatim>\<open>startLocalServer\<close> and its
  result; \<open>EmitAboutToClose\<close> and \<open>EmitNew\<close> are the two project signals with their argument.
  The slots connected to them (\<^verbatim>\<open>shutdown_cloud_instances\<close>, \<^verbatim>\<open>project_created\<close>) read the
  window's fields and write none.\<close>

type_synonym 'a run = "'a outcome \<times> main_window \<times> event list"

section \<open>Current file, temporary projects, saving\<close>

definition setCurrentFile :: "string option \<Rightarrow> main_window \<Rightarrow> unit outcome \<times> main_window" where
  "setCurrentFile path w =
     (if \<not> truthy_str path then
        (Returned (),
         w\<lparr>temporary_project := True, window_file_path := ''Unsaved project'',
           window_modified := False\<rparr>)
      else
        (let p = the path;
             w1 = w\<lparr>temporary_project := False, window_file_path := p,
                    recent_files_store := updateRecentFileSettings p (recent_files_store w)\<rparr>
         in case updateRecentFileActions (recent_files_store w1) of
              Raised x \<Rightarrow> (Raised x, w1)
            | Returned u \<Rightarrow> (Returned (), w1\<lparr>window_modified := False\<rparr>)))"

text \<open>\<^verbatim>\<open>_deleteTemporaryProject\<close> changes no field; errors of the removal are swallowed.\<close>

definition deleteTemporaryProject :: "main_window \<Rightarrow> event list" where
  "deleteTemporaryProject w =
     (if temporary_project w \<and> truthy_str (project_path w)
      then [Rmtree (project_files_dir w), Remove (the (project_path w))]
      else [])"

definition createTemporaryProject :: "env \<Rightarrow> main_window \<Rightarrow> main_window \<times> event list" where
  "createTemporaryProject env w =
     (let (w1, tr) =
        (case named_temporary_file (fs env) of
           Inl e \<Rightarrow> (w, [Critical ''Save'' (''Could not create project: '' @ e)])
         | Inr fname \<Rightarrow>
             (let files_dir = fname @ ''-files'';
                  w' = w\<lparr>project_files_dir := Some files_dir, project_path := Some fname\<rparr>
              in if isdir (fs env) files_dir then (w', [TempFile fname])
                 else (case mkdir (fs env) files_dir of
                         Some e \<Rightarrow>
                           (w, [TempFile fname, Mkdir files_dir,
                                Critical ''Save'' (''Could not create project: '' @ e)])
                       | None \<Rightarrow> (w', [TempFile fname, Mkdir files_dir]))))
      in (snd (setCurrentFile None w1),
          ViewReset # tr @ [UpdateProjectFilesDir (project_files_dir w1)]))"

definition saveProject :: "env \<Rightarrow> main_window \<Rightarrow> string option \<Rightarrow> py_ret run" where
  "saveProject env w path =
     (case path of
        None \<Rightarrow> (Raised TypeError, w, [])
      | Some p \<Rightarrow>
          (case open_write (fs env) p of
             Some e \<Rightarrow>
               (Returned (RBool False), w,
                [Critical ''Save'' (''Could not save project to '' @ p @ '': '' @ e)])
           | None \<Rightarrow>
               (case setCurrentFile (Some p) (w\<lparr>project_path := Some p\<rparr>) of
                  (Raised x, w') \<Rightarrow> (Raised x, w', [WriteProject p])
                | (Returned u, w') \<Rightarrow> (Returned (RBool True), w', [WriteProject p]))))"

text \<open>\<^verbatim>\<open>_createNewProject\<close>. Its handler of a failed \<^verbatim>\<open>makedirs\<close> formats two fields from
  one argument, which raises IndexError.\<close>

definition createNewProject :: "env \<Rightarrow> main_window \<Rightarrow> new_project_settings \<Rightarrow> py_ret run" where
  "createNewProject env w settings =
     (let d = new_project_files_dir settings in
      case makedirs (fs env) d of
        MkOSError e \<Rightarrow> (Raised IndexError, w, [ViewReset, Makedirs d])
      | _ \<Rightarrow>
          (let w1 = w\<lparr>project_name := new_project_name settings,
                       project_path := Some (new_project_path settings),
                       project_files_dir := Some d,
                       project_type := new_project_type settings\<rparr>
           in case saveProject env w1 (Some (new_project_path settings)) of
                (Raised x, w2, tr) \<Rightarrow>
                  (Raised x, w2,
                   [ViewReset, Makedirs d, UpdateProjectFilesDir (Some d), AddInstances] @ tr)
              | (Returned v, w2, tr) \<Rightarrow>
                  (Returned RNone, w2,
                   [ViewReset, Makedirs d, UpdateProjectFilesDir (Some d), AddInstances] @ tr)))"

section \<open>Save as\<close>

definition running_node_names :: "node list \<Rightarrow> string list" where
  "running_node_names ns =
     map node_name (filter (\<lambda>n. node_has_start n \<and> node_status n = Started) ns)"

text \<open>The sub-directories to mirror, in the order of the two nested loops.\<close>

definition sub_directories :: "filesystem \<Rightarrow> string \<Rightarrow> string \<Rightarrow> string list" where
  "sub_directories f old_dir new_dir =
     concat (map (\<lambda>(curpath, dirs).
                    map (path_join (str_replace old_dir new_dir curpath)) dirs)
                 (walk f old_dir))"

fun create_dirs :: "filesystem \<Rightarrow> string list \<Rightarrow> (string \<times> string) option \<times> event list" where
  "create_dirs f [] = (None, [])"
| "create_dirs f (d # ds) =
     (case makedirs f d of
        MkOSError e \<Rightarrow> (Some (d, e), [Makedirs d])
      | _ \<Rightarrow> (case create_dirs f ds of (r, tr) \<Rightarrow> (r, Makedirs d # tr)))"

definition default_project_name :: "main_window \<Rightarrow> string" where
  "default_project_name w =
     (if temporary_project w then ''untitled''
      else (let n = basename (the (project_path w))
            in if endswith n ''.gns3'' then drop_last 5 n else n))"

definition saveProjectAs :: "env \<Rightarrow> main_window \<Rightarrow> py_ret run" where
  "saveProjectAs env w =
     (let running_nodes = running_node_names (topology_nodes (ext env)) in
      if running_nodes \<noteq> [] then
        (Returned RNone, w,
         [MessageBox ''Save project''
            ''Please stop the following nodes before saving the topology to a new location''
            (join_lines running_nodes)])
      else if \<not> temporary_project w \<and> project_path w = None then (Raised TypeError, w, [])
      else
        (let projects_dir_path = projects_path (ext env) in
         case makedirs (fs env) projects_dir_path of
           MkOSError e \<Rightarrow>
             (Returned RNone, w,
              [Makedirs projects_dir_path,
               Critical ''Save project''
                 (''Could not create the projects directory '' @ projects_dir_path @ '': '' @ e)])
         | _ \<Rightarrow>
           (case save_dialog (ui env) (default_project_name w) of
              None \<Rightarrow> (Returned RNone, w, [Makedirs projects_dir_path])
            | Some project_dir \<Rightarrow>
               (let name = basename project_dir;
                    topology_file_path = path_join project_dir (name @ ''.gns3'');
                    new_dir = path_join project_dir (name @ ''-files'');
                    tr1 = [Makedirs projects_dir_path, Makedirs new_dir]
                in case makedirs (fs env) new_dir of
                     MkOSError e \<Rightarrow> (Raised IndexError, w, tr1)
                   | _ \<Rightarrow>
                     (case project_files_dir w of
                        None \<Rightarrow> (Raised TypeError, w, tr1)
                      | Some old_dir \<Rightarrow>
                         (case create_dirs (fs env) (sub_directories (fs env) old_dir new_dir) of
                            (Some (d, e), tr2) \<Rightarrow>
                              (Returned RNone, w,
                               tr1 @ tr2 @
                               [Critical ''Save project''
                                  (''Could not create project sub-directory '' @ d @ '': '' @ e)])
                          | (None, tr2) \<Rightarrow>
                              (let errors = transfer_errors (ext env);
                                   tr3 = [UpdateProjectFilesDir (Some new_dir),
                                          ProcessFiles old_dir new_dir (temporary_project w)]
                                         @ (if errors \<noteq> [] then
                                              [MessageBox ''Save project''
                                                 ''Errors detected while saving the project''
                                                 (join_lines errors)]
                                            else [])
                                         @ deleteTemporaryProject w;
                                   w1 = w\<lparr>project_files_dir := Some new_dir,
                                          project_name := name\<rparr>
                               in case saveProject env w1 (Some topology_file_path) of
                                    (r, w2, tr4) \<Rightarrow> (r, w2, tr1 @ tr2 @ tr3 @ tr4))))))))"

section \<open>Unsaved changes\<close>

definition checkForUnsavedChanges :: "env \<Rightarrow> main_window \<Rightarrow> py_ret run" where
  "checkForUnsavedChanges env w =
     (if window_modified w then
        (if \<not> temporary_project w \<and> project_path w = None then (Raised TypeError, w, [])
         else (case unsaved_reply (ui env) of
                 Save \<Rightarrow>
                   (if temporary_project w then saveProjectAs env w
                    else saveProject env w (project_path w))
               | Cancel \<Rightarrow> (Returned (RBool False), w, [])
               | Discard \<Rightarrow> (Returned (RBool True), w, deleteTemporaryProject w)))
      else (Returned (RBool True), w, deleteTemporaryProject w))"

section \<open>Loading and converting\<close>

text \<open>The files directory \<^verbatim>\<open>loadProject\<close> derives from the path.\<close>

definition files_dir_of :: "string \<Rightarrow> string" where
  "files_dir_of path =
     (if endswith path ''.gns3'' then drop_last 5 path
      else if endswith path ''.net'' then drop_last 4 path
      else path) @ ''-files''"

text \<open>The body of \<^verbatim>\<open>loadProject\<close> for a path whose extension is not \<^verbatim>\<open>.net\<close>, after the view
  reset. (\<^verbatim>\<open>need_to_save\<close> is never set, so the save it guards is left out.)\<close>

definition load_descriptor :: "env \<Rightarrow> main_window \<Rightarrow> string \<Rightarrow> py_ret run" where
  "load_descriptor env w path =
     (case open_json (fs env) path of
        OpenError e \<Rightarrow>
          (Returned (RBool False), w,
           [Critical ''Load'' (''Could not load project from '' @ path @ '': '' @ e)])
      | InvalidJson e \<Rightarrow>
          (Returned (RBool False), w, [Critical ''Load'' (''Invalid file: '' @ e)])
      | Parsed json_topology \<Rightarrow>
          (let d = files_dir_of path;
               w1 = w\<lparr>project_files_dir := Some d\<rparr>;
               made = (if isdir (fs env) d then None
                       else (case makedirs (fs env) d of
                               MkOk \<Rightarrow> None
                             | MkExists \<Rightarrow> Some ''File exists''
                             | MkOSError e \<Rightarrow> Some e));
               tr1 = (if isdir (fs env) d then [] else [Makedirs d])
           in case made of
                Some e \<Rightarrow>
                  (Returned (RBool False), w1,
                   tr1 @ [Critical ''Load'' (''Could not load project from '' @ path @ '': '' @ e)])
              | None \<Rightarrow>
                  (case json_getitem json_topology ''resources_type'' of
                     Raised x \<Rightarrow> (Raised x, w1, tr1 @ [UpdateProjectFilesDir (Some d)])
                   | Returned v \<Rightarrow>
                       (let w2 = w1\<lparr>project_type :=
                                       (if v = JStr ''cloud'' then ''cloud'' else ''local'')\<rparr>;
                            tr2 = tr1 @ [UpdateProjectFilesDir (Some d), TopologyLoad json_topology]
                        in case topology_load (ext env) json_topology of
                             TopologyOSError e \<Rightarrow>
                               (Returned (RBool False), w2,
                                tr2 @ [Critical ''Load''
                                         (''Could not load project from '' @ path @ '': '' @ e)])
                           | TopologyValueError e \<Rightarrow>
                               (Returned (RBool False), w2,
                                tr2 @ [Critical ''Load'' (''Invalid file: '' @ e)])
                           | TopologyLoaded \<Rightarrow>
                               (case setCurrentFile (Some path) (w2\<lparr>project_path := Some path\<rparr>) of
                                  (Raised x, w3) \<Rightarrow> (Raised x, w3, tr2)
                                | (Returned u, w3) \<Rightarrow>
                                    (Returned (RBool True), w3,
                                     tr2 @ [LabInstructions (dirname path)]))))))"

text \<open>The rename loop of \<^verbatim>\<open>_convertOldProject\<close>: while the project directory exists, ask for
  another name.\<close>

fun choose_project_name ::
  "(string \<Rightarrow> bool) \<Rightarrow> string \<Rightarrow> string \<Rightarrow> (string \<times> bool) list \<Rightarrow> (string \<times> string) option" where
  "choose_project_name isd pp name [] =
     (if isd (path_join pp name) then None else Some (name, path_join pp name))"
| "choose_project_name isd pp name ((text, ok) # rest) =
     (if isd (path_join pp name)
      then (if ok then choose_project_name isd pp text rest else None)
      else Some (name, path_join pp name))"

text \<open>\<^verbatim>\<open>_convertOldProject\<close> up to the nested \<^verbatim>\<open>loadProject\<close>: \<open>Inl\<close> is an early return,
  \<open>Inr\<close> carries the path of the converted project. \<open>conversion\<close> stands for the calls of
  \<^verbatim>\<open>get_snapshots\<close> and \<^verbatim>\<open>do_conversion\<close>.\<close>

definition conversion_target :: "env \<Rightarrow> string \<Rightarrow> event list + (string \<times> event list)" where
  "conversion_target env path =
     (if \<not> converter_installed (ext env) then
        Inl [Critical ''GNS3 converter''
               ''Please install gns3-converter in order to open old ini-style GNS3 projects'']
      else
        (case choose_project_name (isdir (fs env)) (projects_path (ext env))
                (basename (dirname path)) (rename_answers (ui env)) of
           None \<Rightarrow> Inl []
         | Some (name, project_dir) \<Rightarrow>
             (case conversion (ext env) path name project_dir of
                ConvertError e \<Rightarrow>
                  Inl [Convert path name project_dir,
                       Critical ''GNS3 converter'' (''Could not convert '' @ path @ '': '' @ e)]
              | ConvertException tb \<Rightarrow>
                  Inl [Convert path name project_dir,
                       MessageBox ''GNS3 converter''
                         (''Unexpected exception while converting '' @ path) tb]
              | Converted \<Rightarrow>
                  Inr (path_join project_dir (name @ ''.gns3''),
                       [Convert path name project_dir,
                        Information ''GNS3 converter''
                          (''Your project has been converted to a new format and can be found in: ''
                           @ project_dir)]))))"

lemma path_join_suffix: "\<exists>y. path_join a (n @ s) = y @ s"
  by (auto simp: path_join_def intro: exI [of _ "a @ n"] exI [of _ "a @ ''/'' @ n"])

lemma splitext_gns3: "splitext_ext (y @ ''.gns3'') \<noteq> ''.net''"
  by (simp add: splitext_ext_def basename_def Let_def)

lemma conversion_target_ext:
  "conversion_target env path = Inr (p, tr) \<Longrightarrow> splitext_ext p \<noteq> ''.net''"
proof -
  assume a: "conversion_target env path = Inr (p, tr)"
  then obtain d n where "p = path_join d (n @ ''.gns3'')"
    by (auto simp: conversion_target_def split: if_splits option.splits conv_result.splits)
  then obtain y where "p = y @ ''.gns3''"
    using path_join_suffix [of d n "''.gns3''"] by auto
  then show ?thesis by (simp only: splitext_gns3 not_False_eq_True)
qed

function loadProject :: "env \<Rightarrow> main_window \<Rightarrow> string \<Rightarrow> py_ret run"
  and convertOldProject :: "env \<Rightarrow> main_window \<Rightarrow> string \<Rightarrow> py_ret run" where
  "loadProject env w path =
     (if splitext_ext path = ''.net'' then
        (case convertOldProject env w path of
           (Raised x, w', tr) \<Rightarrow> (Raised x, w', ViewReset # tr)
         | (Returned v, w', tr) \<Rightarrow> (Returned RNone, w', ViewReset # tr))
      else
        (case load_descriptor env w path of (r, w', tr) \<Rightarrow> (r, w', ViewReset # tr)))"
| "convertOldProject env w path =
     (case conversion_target env path of
        Inl tr \<Rightarrow> (Returned RNone, w, tr)
      | Inr (converted, tr) \<Rightarrow>
          (case loadProject env w converted of
             (Raised x, w', tr') \<Rightarrow> (Raised x, w', tr @ tr')
           | (Returned v, w', tr') \<Rightarrow> (Returned RNone, w', tr @ tr')))"
  by pat_completeness auto
termination
  by (relation "measure (\<lambda>c. case c of
          Inl (env, w, path) \<Rightarrow> (if splitext_ext path = ''.net'' then 2 else 0)
        | Inr (env, w, path) \<Rightarrow> 1)")
     (auto dest: conversion_target_ext)

section \<open>The project slots\<close>

definition openProjectActionSlot :: "env \<Rightarrow> main_window \<Rightarrow> unit run" where
  "openProjectActionSlot env w =
     (let path = open_dialog (ui env) in
      if path = [] then (Returned (), w, [])
      else
        (case checkForUnsavedChanges env w of
           (Raised x, w1, tr1) \<Rightarrow> (Raised x, w1, tr1)
         | (Returned v, w1, tr1) \<Rightarrow>
             (if \<not> truthy (Returned v) then (Returned (), w1, tr1)
              else
                (case loadProject env w1 path of
                   (Raised x, w2, tr2) \<Rightarrow>
                     (Raised x, w2, tr1 @ EmitAboutToClose (project_path w1) # tr2)
                 | (Returned v2, w2, tr2) \<Rightarrow>
                     (Returned (), w2,
                      tr1 @ EmitAboutToClose (project_path w1) # tr2
                      @ (if truthy (Returned v2) then [EmitNew (Some path)] else []))))))"

text \<open>\<^verbatim>\<open>openRecentFileSlot\<close>, for the menu action that carries \<open>path\<close>.\<close>

definition openRecentFileSlot :: "env \<Rightarrow> main_window \<Rightarrow> string \<Rightarrow> unit run" where
  "openRecentFileSlot env w path =
     (if \<not> isfile (fs env) path then
        (Returned (), w, [Critical ''Recent file'' (path @ '': no such file'')])
      else
        (case checkForUnsavedChanges env w of
           (Raised x, w1, tr1) \<Rightarrow> (Raised x, w1, tr1)
         | (Returned v, w1, tr1) \<Rightarrow>
             (if \<not> truthy (Returned v) then (Returned (), w1, tr1)
              else
                (case loadProject env w1 path of
                   (Raised x, w2, tr2) \<Rightarrow>
                     (Raised x, w2, tr1 @ EmitAboutToClose (project_path w1) # tr2)
                 | (Returned v2, w2, tr2) \<Rightarrow>
                     (Returned (), w2,
                      tr1 @ EmitAboutToClose (project_path w1) # tr2
                      @ (if truthy (Returned v2) then [EmitNew (Some path)] else []))))))"


section \<open>Startup: connecting to the local server\<close>

text \<open>
  How the block of \<^verbatim>\<open>startupLoading\<close> that connects to the local server ends. The source
  names none of these; the names are those of the specification, one per exit of the block:
  \<open>AlreadyRunning\<close> (the server reports connected, or \<^verbatim>\<open>connect\<close> succeeds), \<open>HostUnreachable\<close>
  (\<^verbatim>\<open>bind\<close> fails), \<open>PortConflict\<close> (\<^verbatim>\<open>connect\<close> fails without \<^verbatim>\<open>errno\<close>), \<open>AutoStartDisabled\<close>,
  \<open>NoServerConfigured\<close> (the log line "no local server is configured"), \<open>ServerBinaryMissing\<close>,
  \<open>ServerBinaryNotExecutable\<close>, \<open>SpawnFailed\<close> (\<^verbatim>\<open>startLocalServer\<close> is false), \<open>Cancelled\<close> (the
  progress dialog is rejected), \<open>HandshakeFailed\<close> (\<^verbatim>\<open>reconnect\<close> fails) and \<open>Connected\<close>.
  \<open>Returns\<close> marks an exit through a \<^verbatim>\<open>return\<close> statement, \<open>FallsThrough\<close> one that reaches
  the statement after the block.
\<close>

datatype bootstrap_end =
    AlreadyRunning
  | HostUnreachable
  | PortConflict
  | AutoStartDisabled
  | NoServerConfigured
  | ServerBinaryMissing
  | ServerBinaryNotExecutable
  | SpawnFailed
  | Cancelled
  | HandshakeFailed
  | Connected

datatype flow = Returns bootstrap_end | FallsThrough bootstrap_end

definition connectLocalServer :: "env \<Rightarrow> flow \<times> event list" where
  "connectLocalServer env =
     (let s = srv env; host = server_host s in
      if server_connected s then (FallsThrough AlreadyRunning, [])
      else
        (case socket_bind s of
           Some e \<Rightarrow>
             (Returns HostUnreachable,
              [SocketBind host,
               Critical ''Local server''
                 (''Could not bind with '' @ host @ '': '' @ e
                  @ '' (please check your host binding setting)'')])
         | None \<Rightarrow>
             (case server_connect s of
                None \<Rightarrow> (FallsThrough AlreadyRunning, [SocketBind host, ServerConnect])
              | Some (errno, e) \<Rightarrow>
                  (if errno = None \<or> errno = Some 0 then
                     (Returns PortConflict,
                      [SocketBind host, ServerConnect,
                       MessageBox ''Local server''
                         (''Something other than a GNS3 server is already running on '' @ host
                          @ '', please adjust the local server port setting'') e])
                   else if \<not> local_server_auto_start s then
                     (Returns AutoStartDisabled, [SocketBind host, ServerConnect])
                   else if \<not> truthy_str (local_server_path s) then
                     (Returns NoServerConfigured, [SocketBind host, ServerConnect])
                   else
                     (let p = the (local_server_path s) in
                      if \<not> isfile (fs env) p then
                        (Returns ServerBinaryMissing,
                         [SocketBind host, ServerConnect,
                          Critical ''Local server'' (''Could not find local server '' @ p)])
                      else if \<not> access_x (fs env) p then
                        (Returns ServerBinaryNotExecutable,
                         [SocketBind host, ServerConnect,
                          Critical ''Local server'' (p @ '' is not an executable'')])
                      else if \<not> start_local_server s then
                        (Returns SpawnFailed,
                         [SocketBind host, ServerConnect, StartLocalServer p False,
                          Critical ''Local server''
                            (''Could not start the local server process: '' @ p)])
                      else if \<not> wait_dialog (ui env) then
                        (Returns Cancelled,
                         [SocketBind host, ServerConnect, StartLocalServer p True])
                      else
                        (case server_reconnect s of
                           Some e' \<Rightarrow>
                             (FallsThrough HandshakeFailed,
                              [SocketBind host, ServerConnect, StartLocalServer p True,
                               ServerReconnect,
                               Critical ''Local server''
                                 (''Could not connect to the local server '' @ host @ '': '' @ e')])
                         | None \<Rightarrow>
                             (FallsThrough Connected,
                              [SocketBind host, ServerConnect, StartLocalServer p True,
                               ServerReconnect])))))))"

text \<open>\<^verbatim>\<open>startupLoading\<close>, up to the project dialog. (The weekly update check and the analytics
  event that follow touch neither the project nor the server and are left out.)\<close>

definition startupLoading :: "env \<Rightarrow> main_window \<Rightarrow> flow \<times> unit run" where
  "startupLoading env w =
     (case connectLocalServer env of
        (Returns b, tr) \<Rightarrow> (Returns b, Returned (), w, GettingStarted # tr)
      | (FallsThrough b, tr) \<Rightarrow>
          (case createTemporaryProject env w of
             (w1, tr1) \<Rightarrow>
               (if auto_launch_project_dialog (ext env) then
                  (case new_project_dialog (ui env) of
                     None \<Rightarrow> (FallsThrough b, Returned (), w1, GettingStarted # tr @ tr1)
                   | Some settings \<Rightarrow>
                       (case createNewProject env w1 settings of
                          (Raised x, w2, tr2) \<Rightarrow>
                            (FallsThrough b, Raised x, w2, GettingStarted # tr @ tr1 @ tr2)
                        | (Returned v, w2, tr2) \<Rightarrow>
                            (FallsThrough b, Returned (), w2,
                             GettingStarted # tr @ tr1 @ tr2 @ [EmitNew (project_path w2)])))
                else (FallsThrough b, Returned (), w1, GettingStarted # tr @ tr1))))"

text \<open>The processes a run has spawned: the successful calls of \<^verbatim>\<open>startLocalServer\<close>.\<close>

fun spawned :: "event list \<Rightarrow> nat" where
  "spawned [] = 0"
| "spawned (StartLocalServer p ok # tr) = (if ok then Suc (spawned tr) else spawned tr)"
| "spawned (e # tr) = spawned tr"

section \<open>Reading a run\<close>

definition result_of :: "'a run \<Rightarrow> 'a outcome" where
  "result_of r = fst r"

definition window_of :: "'a run \<Rightarrow> main_window" where
  "window_of r = fst (snd r)"

definition trace_of :: "'a run \<Rightarrow> event list" where
  "trace_of r = snd (snd r)"

text \<open>Removal of a temporary project's files, and the two project signals.\<close>

fun is_teardown :: "event \<Rightarrow> bool" where
  "is_teardown (Rmtree d) = True"
| "is_teardown (Remove p) = True"
| "is_teardown e = False"

fun is_signal :: "event \<Rightarrow> bool" where
  "is_signal (EmitAboutToClose p) = True"
| "is_signal (EmitNew p) = True"
| "is_signal e = False"

fun is_transfer :: "event \<Rightarrow> bool" where
  "is_transfer (ProcessFiles src dst mv) = True"
| "is_transfer e = False"

text \<open>Whether the \<^verbatim>\<open>try\<close> block of \<^verbatim>\<open>_createTemporaryProject\<close> ends in its OSError handler.\<close>

definition creation_failed :: "filesystem \<Rightarrow> bool" where
  "creation_failed f =
     (case named_temporary_file f of
        Inl e \<Rightarrow> True
      | Inr fname \<Rightarrow> \<not> isdir f (fname @ ''-files'') \<and> mkdir f (fname @ ''-files'') \<noteq> None)"

section \<open>Sample collaborators and windows\<close>

definition fs0 :: filesystem where
  "fs0 =
     \<lparr> isdir = (\<lambda>p. False),
       isfile = (\<lambda>p. True),
       access_x = (\<lambda>p. True),
       makedirs = (\<lambda>p. MkOk),
       mkdir = (\<lambda>p. None),
       named_temporary_file = Inr ''/tmp/gns3-k3j2x9'',
       open_write = (\<lambda>p. None),
       open_json = (\<lambda>p. Parsed (JObj [(''resources_type'', JStr ''local'')])),
       walk = (\<lambda>p. []) \<rparr>"

definition ui0 :: dialogs where
  "ui0 =
     \<lparr> unsaved_reply = Discard,
       new_project_dialog = None,
       open_dialog = ''/home/u/projects/lab/lab.gns3'',
       save_dialog = (\<lambda>n. Some ''/home/u/projects/lab''),
       rename_answers = [],
       wait_dialog = True \<rparr>"

definition srv0 :: servers where
  "srv0 =
     \<lparr> server_connected = False,
       server_host = ''127.0.0.1'',
       socket_bind = None,
       server_connect = Some (Some 111, ''Connection refused''),
       local_server_auto_start = True,
       local_server_path = Some ''/usr/bin/gns3server'',
       start_local_server = True,
       server_reconnect = None \<rparr>"

definition ext0 :: collaborators where
  "ext0 =
     \<lparr> topology_nodes = [],
       topology_load = (\<lambda>j. TopologyLoaded),
       transfer_errors = [],
       converter_installed = True,
       conversion = (\<lambda>path name dir. Converted),
       projects_path = ''/home/u/projects'',
       auto_launch_project_dialog = False \<rparr>"

definition env0 :: env where
  "env0 = \<lparr> fs = fs0, ui = ui0, srv = srv0, ext = ext0 \<rparr>"

text \<open>A window on a temporary project, and one on a saved project.\<close>

definition temp_window :: main_window where
  "temp_window =
     \<lparr> temporary_project = True,
       project_name = ''unsaved'',
       project_path = Some ''/tmp/gns3-old'',
       project_files_dir = Some ''/tmp/gns3-old-files'',
       project_type = ''local'',
       window_file_path = ''Unsaved project'',
       window_modified = False,
       recent_files_store = [] \<rparr>"

definition saved_window :: main_window where
  "saved_window =
     \<lparr> temporary_project = False,
       project_name = ''old'',
       project_path = Some ''/home/u/projects/old/old.gns3'',
       project_files_dir = Some ''/home/u/projects/old/old-files'',
       project_type = ''local'',
       window_file_path = ''/home/u/projects/old/old.gns3'',
       window_modified = False,
       recent_files_store = [''/home/u/projects/old/old.gns3''] \<rparr>"

text \<open>Two started nodes that can be stopped, among others.\<close>

definition env_running :: env where
  "env_running =
     env0\<lparr>ext := ext0\<lparr>topology_nodes :=
       [\<lparr>node_has_start = True, node_status = Started, node_name = ''R1''\<rparr>,
        \<lparr>node_has_start = True, node_status = Stopped, node_name = ''R2''\<rparr>,
        \<lparr>node_has_start = False, node_status = Started, node_name = ''SW1''\<rparr>,
        \<lparr>node_has_start = True, node_status = Started, node_name = ''R3''\<rparr>]\<rparr>\<rparr>"

text \<open>No temporary file can be created.\<close>

definition env_no_temp :: env where
  "env_no_temp = env0\<lparr>fs := fs0\<lparr>named_temporary_file := Inl ''No space left on device''\<rparr>\<rparr>"

text \<open>Reading a run of \<^verbatim>\<open>startupLoading\<close>.\<close>

definition bootstrap_of :: "flow \<times> unit run \<Rightarrow> flow" where
  "bootstrap_of s = fst s"


definition startup_events :: "flow \<times> unit run \<Rightarrow> event list" where
  "startup_events s = snd (snd (snd s))"



definition env_auto_start_off :: env where
  "env_auto_start_off =
     env0\<lparr>srv := srv0\<lparr>local_server_auto_start := False, local_server_path := None\<rparr>\<rparr>"

definition env_no_server :: env where
  "env_no_server = env0\<lparr>srv := srv0\<lparr>local_server_path := None\<rparr>\<rparr>"

definition env_connected :: env where
  "env_connected = env0\<lparr>srv := srv0\<lparr>server_connected := True\<rparr>\<rparr>"

text \<open>Filesystems: no directory can be created; the descriptor is not valid JSON.\<close>

definition env_makedirs_fails :: env where
  "env_makedirs_fails = env0\<lparr>fs := fs0\<lparr>makedirs := (\<lambda>p. MkOSError ''Permission denied'')\<rparr>\<rparr>"

definition env_bad_json :: env where
  "env_bad_json = env0\<lparr>fs := fs0\<lparr>open_json := (\<lambda>p. InvalidJson ''Expecting value'')\<rparr>\<rparr>"

text \<open>The files directory as the specification words it: the descriptor path with its
  extension stripped, followed by \<^verbatim>\<open>-files\<close>.\<close>

definition spec_files_dir :: "string \<Rightarrow> string" where
  "spec_files_dir path = take (length path - length (splitext_ext path)) path @ ''-files''"

text \<open>Whether \<^verbatim>\<open>saveProjectAs\<close> gets as far as the file transfer: no started node, a project
  path to name the default from, the projects directory, the destination and its
  sub-directories created (or present), and the dialog accepted.\<close>

definition transfer_reached :: "env \<Rightarrow> main_window \<Rightarrow> bool" where
  "transfer_reached env w =
     (running_node_names (topology_nodes (ext env)) = []
      \<and> (temporary_project w \<or> project_path w \<noteq> None)
      \<and> (case makedirs (fs env) (projects_path (ext env)) of MkOSError e \<Rightarrow> False | _ \<Rightarrow> True)
      \<and> (case save_dialog (ui env) (default_project_name w) of
            None \<Rightarrow> False
          | Some project_dir \<Rightarrow>
              (let new_dir = path_join project_dir (basename project_dir @ ''-files'') in
               (case makedirs (fs env) new_dir of MkOSError e \<Rightarrow> False | _ \<Rightarrow> True)
               \<and> (case project_files_dir w of
                     None \<Rightarrow> False
                   | Some old_dir \<Rightarrow>
                       fst (create_dirs (fs env) (sub_directories (fs env) old_dir new_dir)) = None))))"

text \<open>No file can be opened for writing.\<close>

definition env_write_fails :: env where
  "env_write_fails = env0\<lparr>fs := fs0\<lparr>open_write := (\<lambda>p. Some ''Permission denied'')\<rparr>\<rparr>"

text \<open>The open dialog returns a legacy topology.\<close>

definition env_legacy :: env where
  "env_legacy = env0\<lparr>ui := ui0\<lparr>open_dialog := ''/home/u/old/topology.net''\<rparr>\<rparr>"

declare loadProject.simps [simp del] convertOldProject.simps [simp del]

section \<open>Recent files: the update keeps a well-formed list well-formed\<close>

lemma remove1_filter_distinct: "distinct xs \<Longrightarrow> remove1 x xs = filter (\<lambda>y. y \<noteq> x) xs"
  by (simp add: distinct_remove1_removeAll removeAll_filter_not_eq eq_commute)

text \<open>
  C8 (as amended). When the stored list (empty entries apart) has no duplicates and at most
  five entries, the updated list starts with the new path, has no duplicates and at most
  five entries, and its other entries are the previous ones without the new path, in their
  previous order, cut after the fourth.
\<close>

theorem recent_files_update:
  assumes d: "distinct (filter (\<lambda>p. p \<noteq> []) store)"
    and l: "length (filter (\<lambda>p. p \<noteq> []) store) \<le> max_recent_files"
  shows "\<exists>rest. updateRecentFileSettings path store = path # rest
           \<and> distinct (path # rest)
           \<and> length (path # rest) \<le> max_recent_files
           \<and> rest = take (max_recent_files - 1)
                       (filter (\<lambda>p. p \<noteq> path) (filter (\<lambda>p. p \<noteq> []) store))"
proof -
  define prior where "prior = filter (\<lambda>p. p \<noteq> []) store"
  have dp: "distinct prior" and lp: "length prior \<le> 5"
    using d l by (simp_all add: prior_def max_recent_files_def)
  show ?thesis
  proof (cases "path \<in> set prior")
    case True
    have r: "remove1 path prior = filter (\<lambda>p. p \<noteq> path) prior"
      using dp by (rule remove1_filter_distinct)
    have len: "length (remove1 path prior) < 5"
      using True lp by (simp add: length_remove1)
    have "updateRecentFileSettings path store = path # remove1 path prior"
      using True len
      by (simp add: updateRecentFileSettings_def Let_def prior_def [symmetric]
            max_recent_files_def)
    moreover have "distinct (path # remove1 path prior)"
      using dp by (simp add: r)
    ultimately show ?thesis
      using len by (simp add: r prior_def [symmetric] max_recent_files_def)
  next
    case False
    have f: "filter (\<lambda>p. p \<noteq> path) prior = prior"
      using False by (auto simp: filter_id_conv)
    show ?thesis
    proof (cases "length prior = 5")
      case True
      then have "prior \<noteq> []" by auto
      then have "updateRecentFileSettings path store = path # butlast prior"
        using False True
        by (simp add: updateRecentFileSettings_def Let_def prior_def [symmetric]
            max_recent_files_def)
      moreover have "butlast prior = take 4 prior"
        using True by (simp add: butlast_conv_take)
      moreover have "distinct (path # take 4 prior)"
        using False dp by (auto dest: in_set_takeD)
      ultimately show ?thesis
        using True by (simp add: f prior_def [symmetric] max_recent_files_def)
    next
      case F2: False
      then have lt: "length prior < 5" using lp by simp
      then have "updateRecentFileSettings path store = path # prior"
        using False
        by (simp add: updateRecentFileSettings_def Let_def prior_def [symmetric]
            max_recent_files_def)
      then show ?thesis
        using lt False dp by (simp add: f prior_def [symmetric] max_recent_files_def)
    qed
  qed
qed

theorem recent_files_update_witness:
  "updateRecentFileSettings ''/p/f.gns3''
      [''/p/a.gns3'', ''/p/b.gns3'', ''/p/c.gns3'', ''/p/d.gns3'', ''/p/e.gns3'']
    = [''/p/f.gns3'', ''/p/a.gns3'', ''/p/b.gns3'', ''/p/c.gns3'', ''/p/d.gns3'']"
  using recent_files_update
    [of "[''/p/a.gns3'', ''/p/b.gns3'', ''/p/c.gns3'', ''/p/d.gns3'', ''/p/e.gns3'']" "''/p/f.gns3''"]
  by (simp add: max_recent_files_def)

text \<open>The claim as stated, for every stored list, fails: a stored duplicate stays, and of
  six stored entries six remain.\<close>

theorem recent_files_counterexample:
  "\<not> distinct (updateRecentFileSettings ''/p/b.gns3'' [''/p/a.gns3'', ''/p/a.gns3''])
   \<and> length (updateRecentFileSettings ''/p/g.gns3''
        [''/p/a.gns3'', ''/p/b.gns3'', ''/p/c.gns3'', ''/p/d.gns3'', ''/p/e.gns3'', ''/p/f.gns3''])
      = 6"
  by (simp add: updateRecentFileSettings_def max_recent_files_def)

section \<open>Save as refuses while nodes run\<close>

text \<open>
  C3. When the topology reports at least one node that has a \<^verbatim>\<open>start\<close> method and is started,
  \<^verbatim>\<open>saveProjectAs\<close> hands back nothing, leaves every field of the window as it was, and its
  only effect is the message box that lists the names of those nodes: no directory is
  created and no file is transferred, whatever the other inputs are.
\<close>

theorem saveProjectAs_nodes_running:
  assumes "\<exists>n \<in> set (topology_nodes (ext env)). node_has_start n \<and> node_status n = Started"
  shows "running_node_names (topology_nodes (ext env)) \<noteq> []
       \<and> saveProjectAs env w =
           (Returned RNone, w,
            [MessageBox ''Save project''
               ''Please stop the following nodes before saving the topology to a new location''
               (join_lines (running_node_names (topology_nodes (ext env))))])"
proof -
  have "running_node_names (topology_nodes (ext env)) \<noteq> []"
    using assms by (auto simp: running_node_names_def filter_empty_conv)
  then show ?thesis by (simp add: saveProjectAs_def)
qed

theorem saveProjectAs_nodes_running_witness:
  "saveProjectAs env_running temp_window =
     (Returned RNone, temp_window,
      [MessageBox ''Save project''
         ''Please stop the following nodes before saving the topology to a new location''
         (''R1'' @ [CHR 0x0A] @ ''R3'')])"
proof -
  have h: "\<exists>n \<in> set (topology_nodes (ext env_running)). node_has_start n \<and> node_status n = Started"
    by (simp add: env_running_def env0_def ext0_def)
  show ?thesis
    using saveProjectAs_nodes_running [OF h, of temp_window]
    by (simp add: env_running_def env0_def ext0_def running_node_names_def)
qed

section \<open>A temporary project is always marked unsaved\<close>

text \<open>
  C10. \<^verbatim>\<open>_createTemporaryProject\<close> always ends with the project marked temporary, the window
  file path set to "Unsaved project" and the modified flag cleared. This also holds when the
  temporary file or its directory cannot be created; the path and the files directory then
  keep the values of the superseded project.
\<close>

theorem createTemporaryProject_unsaved:
  "temporary_project (fst (createTemporaryProject env w))
   \<and> window_file_path (fst (createTemporaryProject env w)) = ''Unsaved project''
   \<and> \<not> window_modified (fst (createTemporaryProject env w))
   \<and> (creation_failed (fs env) \<longrightarrow>
        project_path (fst (createTemporaryProject env w)) = project_path w
        \<and> project_files_dir (fst (createTemporaryProject env w)) = project_files_dir w)"
  by (auto simp: createTemporaryProject_def setCurrentFile_def creation_failed_def Let_def
      split: sum.splits option.splits)

theorem createTemporaryProject_unsaved_witness:
  "creation_failed (fs env_no_temp)
   \<and> temporary_project (fst (createTemporaryProject env_no_temp saved_window))
   \<and> window_file_path (fst (createTemporaryProject env_no_temp saved_window)) = ''Unsaved project''
   \<and> \<not> window_modified (fst (createTemporaryProject env_no_temp saved_window))
   \<and> project_path (fst (createTemporaryProject env_no_temp saved_window))
       = Some ''/home/u/projects/old/old.gns3''
   \<and> project_files_dir (fst (createTemporaryProject env_no_temp saved_window))
       = Some ''/home/u/projects/old/old-files''"
proof -
  have h: "creation_failed (fs env_no_temp)"
    by (simp add: creation_failed_def env_no_temp_def env0_def fs0_def)
  show ?thesis
    using h createTemporaryProject_unsaved [of env_no_temp saved_window]
    by (simp add: saved_window_def)
qed

section \<open>Startup spawns at most one server\<close>

lemma spawned_append: "spawned (a @ b) = spawned a + spawned b"
  by (induction a rule: spawned.induct) auto

lemma spawned_connect: "spawned (snd (connectLocalServer env)) \<le> 1"
  by (auto simp: connectLocalServer_def Let_def split: option.splits)

lemma spawned_connect_no_path:
  "\<not> truthy_str (local_server_path (srv env)) \<Longrightarrow> spawned (snd (connectLocalServer env)) = 0"
  by (auto simp: connectLocalServer_def Let_def split: option.splits)

lemma spawned_createTemporaryProject: "createTemporaryProject env w = (w', tr) \<Longrightarrow> spawned tr = 0"
  by (auto simp: createTemporaryProject_def Let_def spawned_append split: sum.splits option.splits if_splits)

lemma spawned_saveProject: "saveProject env w p = (r, w', tr) \<Longrightarrow> spawned tr = 0"
  by (auto simp: saveProject_def split: option.splits outcome.splits prod.splits)

lemma spawned_createNewProject: "createNewProject env w s = (r, w', tr) \<Longrightarrow> spawned tr = 0"
  by (auto simp: createNewProject_def Let_def spawned_append
      split: mk_result.splits outcome.splits prod.splits dest: spawned_saveProject)

lemma startup_trace:
  "\<exists>tr'. startup_events (startupLoading env w) = GettingStarted # snd (connectLocalServer env) @ tr'
      \<and> spawned tr' = 0"
  by (auto simp: startupLoading_def spawned_append startup_events_def
      split: prod.splits flow.splits option.splits outcome.splits if_splits
      dest: spawned_createTemporaryProject spawned_createNewProject)

lemma startup_flow: "bootstrap_of (startupLoading env w) = fst (connectLocalServer env)"
  by (auto simp: startupLoading_def bootstrap_of_def
      split: prod.splits flow.splits option.splits outcome.splits if_splits)

lemma spawned_startup:
  "spawned (startup_events (startupLoading env w)) = spawned (snd (connectLocalServer env))"
  using startup_trace [of env w] by (auto simp: spawned_append)

text \<open>
  C4 (as amended). A run of \<^verbatim>\<open>startupLoading\<close> spawns no server process when the server
  already reports connected (the run then goes on as \<open>AlreadyRunning\<close>), nor when no server
  executable is configured, whatever the other answers are. With the host bindable, the
  connection refused with an ordinary OS error, auto-start enabled and no executable
  configured, the run returns as \<open>NoServerConfigured\<close>. No run spawns more than one process.
\<close>

theorem startupLoading_spawns:
  "(server_connected (srv env) \<longrightarrow>
      bootstrap_of (startupLoading env w) = FallsThrough AlreadyRunning
      \<and> spawned (startup_events (startupLoading env w)) = 0)
   \<and> (\<not> server_connected (srv env) \<and> socket_bind (srv env) = None
        \<and> server_connect (srv env) = Some (Some errno, e) \<and> errno \<noteq> 0
        \<and> local_server_auto_start (srv env)
        \<and> \<not> truthy_str (local_server_path (srv env)) \<longrightarrow>
      bootstrap_of (startupLoading env w) = Returns NoServerConfigured)
   \<and> (\<not> truthy_str (local_server_path (srv env)) \<longrightarrow>
        spawned (startup_events (startupLoading env w)) = 0)
   \<and> spawned (startup_events (startupLoading env w)) \<le> 1"
proof -
  have a: "server_connected (srv env) \<Longrightarrow> connectLocalServer env = (FallsThrough AlreadyRunning, [])"
    by (simp add: connectLocalServer_def Let_def)
  have b: "\<not> server_connected (srv env) \<and> socket_bind (srv env) = None
        \<and> server_connect (srv env) = Some (Some errno, e) \<and> errno \<noteq> 0
        \<and> local_server_auto_start (srv env)
        \<and> \<not> truthy_str (local_server_path (srv env))
      \<Longrightarrow> fst (connectLocalServer env) = Returns NoServerConfigured"
    by (simp add: connectLocalServer_def Let_def)
  show ?thesis
    using a b spawned_connect [of env] spawned_connect_no_path [of env]
    by (auto simp: startup_flow spawned_startup)
qed

theorem startupLoading_spawns_witness:
  "bootstrap_of (startupLoading env_connected (init_window [])) = FallsThrough AlreadyRunning
   \<and> spawned (startup_events (startupLoading env_connected (init_window []))) = 0
   \<and> bootstrap_of (startupLoading env_no_server (init_window [])) = Returns NoServerConfigured
   \<and> spawned (startup_events (startupLoading env_no_server (init_window []))) = 0"
  using startupLoading_spawns [of env_connected "init_window []" 111 "''Connection refused''"]
    startupLoading_spawns [of env_no_server "init_window []" 111 "''Connection refused''"]
  by (simp add: env_connected_def env_no_server_def env0_def srv0_def)

text \<open>The claim as stated fails when auto-start is disabled: with an unreachable endpoint and
  no executable configured the run returns silently, before the executable is looked at.\<close>

theorem startupLoading_auto_start_off_counterexample:
  "\<not> server_connected (srv env_auto_start_off)
   \<and> server_connect (srv env_auto_start_off) = Some (Some 111, ''Connection refused'')
   \<and> local_server_path (srv env_auto_start_off) = None
   \<and> bootstrap_of (startupLoading env_auto_start_off (init_window [])) = Returns AutoStartDisabled
   \<and> bootstrap_of (startupLoading env_auto_start_off (init_window [])) \<noteq> Returns NoServerConfigured"
  by (simp add: env_auto_start_off_def env0_def srv0_def startupLoading_def bootstrap_of_def
      connectLocalServer_def Let_def)

section \<open>Which bootstrap failures let startup continue\<close>





section \<open>Loading: what a failed load leaves behind\<close>

text \<open>The recursion of \<^verbatim>\<open>loadProject\<close> through the converter has depth one: the converted
  project never has the extension \<^verbatim>\<open>.net\<close>.\<close>

lemma loadProject_plain:
  "splitext_ext path \<noteq> ''.net'' \<Longrightarrow>
     loadProject env w path =
       (case load_descriptor env w path of (r, w', tr) \<Rightarrow> (r, w', ViewReset # tr))"
  by (simp add: loadProject.simps)

lemma loadProject_net:
  assumes "splitext_ext path = ''.net''"
  shows "loadProject env w path =
       (case conversion_target env path of
          Inl tr \<Rightarrow> (Returned RNone, w, ViewReset # tr)
        | Inr (c, tr) \<Rightarrow>
            (case load_descriptor env w c of
               (Raised x, w', tr') \<Rightarrow> (Raised x, w', ViewReset # tr @ ViewReset # tr')
             | (Returned v, w', tr') \<Rightarrow> (Returned RNone, w', ViewReset # tr @ ViewReset # tr')))"
proof (cases "conversion_target env path")
  case (Inl tr)
  then show ?thesis
    using assms by (simp add: loadProject.simps convertOldProject.simps)
next
  case (Inr ctr)
  obtain c tr where ctr: "ctr = (c, tr)" by (cases ctr)
  have "splitext_ext c \<noteq> ''.net''"
    using Inr ctr by (auto dest: conversion_target_ext)
  then have "loadProject env w c =
       (case load_descriptor env w c of (r, w', tr) \<Rightarrow> (r, w', ViewReset # tr))"
    by (rule loadProject_plain)
  then show ?thesis
    using assms Inr ctr
    by (simp add: loadProject.simps [of env w path] convertOldProject.simps
        split: prod.splits outcome.splits)
qed

lemma load_descriptor_failure:
  assumes "load_descriptor env w path = (Returned (RBool False), w', tr)"
  shows "project_path w' = project_path w \<and> temporary_project w' = temporary_project w
     \<and> project_name w' = project_name w \<and> window_file_path w' = window_file_path w
     \<and> window_modified w' = window_modified w \<and> recent_files_store w' = recent_files_store w
     \<and> ((\<forall>j. open_json (fs env) path \<noteq> Parsed j) \<longrightarrow> w' = w)
     \<and> (\<forall>j. open_json (fs env) path = Parsed j \<longrightarrow>
           project_files_dir w' = Some (files_dir_of path))"
  using assms
  by (auto simp: load_descriptor_def setCurrentFile_def Let_def
      split: read_result.splits option.splits outcome.splits topo_result.splits if_splits prod.splits)

lemma loadProject_False:
  assumes "loadProject env w path = (Returned (RBool b), w', tr)"
  shows "splitext_ext path \<noteq> ''.net''"
proof
  assume "splitext_ext path = ''.net''"
  from loadProject_net [OF this, of env w] assms show False
    by (auto split: sum.splits prod.splits outcome.splits)
qed

text \<open>
  C1 (as amended). When \<^verbatim>\<open>loadProject\<close> hands back \<^verbatim>\<open>False\<close>, the project path, the temporary
  flag, the project name, the window's file path and modified flag and the recent files are
  as before the call. When the error comes from opening or parsing the descriptor, every
  field is as before. When it comes later, the files directory already holds the value
  derived from the path. In every case the view reset comes first.
\<close>

theorem loadProject_failure:
  assumes "loadProject env w path = (Returned (RBool False), w', tr)"
  shows "project_path w' = project_path w \<and> temporary_project w' = temporary_project w
     \<and> project_name w' = project_name w \<and> window_file_path w' = window_file_path w
     \<and> window_modified w' = window_modified w \<and> recent_files_store w' = recent_files_store w
     \<and> ((\<forall>j. open_json (fs env) path \<noteq> Parsed j) \<longrightarrow> w' = w)
     \<and> (\<forall>j. open_json (fs env) path = Parsed j \<longrightarrow>
           project_files_dir w' = Some (files_dir_of path))
     \<and> (\<exists>tr'. tr = ViewReset # tr')"
proof -
  have ne: "splitext_ext path \<noteq> ''.net''"
    using assms by (rule loadProject_False)
  obtain tr' where "load_descriptor env w path = (Returned (RBool False), w', tr')"
    and "tr = ViewReset # tr'"
    using assms loadProject_plain [OF ne, of env w] by (auto split: prod.splits)
  then show ?thesis
    using load_descriptor_failure [of env w path w' tr'] by simp
qed

lemma ext_lab_gns3: "splitext_ext ''/home/u/projects/lab/lab.gns3'' \<noteq> ''.net''"
  by (simp add: splitext_ext_def basename_def Let_def)

theorem loadProject_failure_witness:
  "loadProject env_bad_json saved_window ''/home/u/projects/lab/lab.gns3'' =
     (Returned (RBool False), saved_window, [ViewReset, Critical ''Load'' ''Invalid file: Expecting value''])"
proof -
  have run: "loadProject env_bad_json saved_window ''/home/u/projects/lab/lab.gns3'' =
     (Returned (RBool False), saved_window, [ViewReset, Critical ''Load'' ''Invalid file: Expecting value''])"
    by (simp add: loadProject_plain [OF ext_lab_gns3] load_descriptor_def env_bad_json_def env0_def fs0_def)
  from loadProject_failure [OF run] show ?thesis
    using run by simp
qed

text \<open>The claim as stated fails: when the files directory cannot be created, the load hands
  back \<^verbatim>\<open>False\<close> and the files directory of the previous project has been overwritten.\<close>

theorem loadProject_files_dir_counterexample:
  "result_of (loadProject env_makedirs_fails saved_window ''/home/u/projects/lab/lab.gns3'')
     = Returned (RBool False)
   \<and> project_files_dir saved_window = Some ''/home/u/projects/old/old-files''
   \<and> project_files_dir (window_of (loadProject env_makedirs_fails saved_window ''/home/u/projects/lab/lab.gns3''))
     = Some ''/home/u/projects/lab/lab-files''"
  by (simp add: loadProject_plain [OF ext_lab_gns3] load_descriptor_def env_makedirs_fails_def env0_def fs0_def
      result_of_def window_of_def saved_window_def files_dir_of_def endswith_def drop_last_def Let_def)

section \<open>The files directory follows the path\<close>

lemma load_descriptor_path:
  assumes "load_descriptor env w path = (r, w', tr)"
    and "r = Returned (RBool True) \<or> project_path w' \<noteq> project_path w"
  shows "project_path w' = Some path \<and> project_files_dir w' = Some (files_dir_of path)"
  using assms
  by (auto simp: load_descriptor_def setCurrentFile_def Let_def
      split: read_result.splits option.splits outcome.splits topo_result.splits if_splits prod.splits)

lemma basename_no_slash: "CHR ''/'' \<notin> set (basename p)"
  by (auto simp: basename_def dest: set_takeWhileD)

lemma path_join_name:
  assumes "CHR ''/'' \<notin> set n" "s \<noteq> []" "hd s \<noteq> CHR ''/''"
  shows "path_join d (n @ s) = (if d = [] \<or> endswith d ''/'' then d else d @ ''/'') @ n @ s"
proof -
  have "hd (n @ s) \<noteq> CHR ''/''"
    using assms by (cases n) auto
  then show ?thesis
    using assms by (simp add: path_join_def)
qed

lemma files_dir_of_gns3: "files_dir_of (y @ ''.gns3'') = y @ ''-files''"
  by (simp add: files_dir_of_def endswith_def drop_last_def)

lemma save_as_names:
  "files_dir_of (path_join d (basename d' @ ''.gns3'')) = path_join d (basename d' @ ''-files'')"
  using path_join_name [of "basename d'" "''.gns3''" d] path_join_name [of "basename d'" "''-files''" d]
    files_dir_of_gns3 [of "(if d = [] \<or> endswith d ''/'' then d else d @ ''/'') @ basename d'"]
  by (simp add: basename_no_slash)

lemma saveProject_path:
  assumes "saveProject env w (Some p) = (r, w', tr)"
    and "r = Returned (RBool True) \<or> project_path w' \<noteq> project_path w"
  shows "project_path w' = Some p \<and> project_files_dir w' = project_files_dir w"
  using assms
  by (auto simp: saveProject_def setCurrentFile_def Let_def
      split: option.splits outcome.splits if_splits prod.splits)

lemma saveProjectAs_path:
  assumes "saveProjectAs env w = (r, w', tr)"
    and "r = Returned (RBool True) \<or> project_path w' \<noteq> project_path w"
  shows "\<exists>p. project_path w' = Some p \<and> project_files_dir w' = Some (files_dir_of p)"
  using assms
  by (auto simp: saveProjectAs_def Let_def save_as_names
      split: option.splits mk_result.splits if_splits prod.splits
      dest!: saveProject_path)

lemma loadProject_path:
  assumes "loadProject env w path = (r, w', tr)"
    and "r = Returned (RBool True) \<or> project_path w' \<noteq> project_path w"
  shows "(\<exists>p. project_path w' = Some p \<and> project_files_dir w' = Some (files_dir_of p))
       \<and> (r = Returned (RBool True) \<longrightarrow> project_path w' = Some path)"
proof (cases "splitext_ext path = ''.net''")
  case True
  show ?thesis
    using assms loadProject_net [OF True, of env w]
    by (auto split: sum.splits prod.splits outcome.splits dest: load_descriptor_path)
next
  case False
  show ?thesis
    using assms loadProject_plain [OF False, of env w]
    by (auto split: prod.splits dest: load_descriptor_path)
qed

lemma createTemporaryProject_path:
  assumes "\<not> creation_failed (fs env)"
  shows "\<exists>f. named_temporary_file (fs env) = Inr f
           \<and> project_path (fst (createTemporaryProject env w)) = Some f
           \<and> project_files_dir (fst (createTemporaryProject env w)) = Some (f @ ''-files'')
           \<and> (\<not> endswith f ''.gns3'' \<and> \<not> endswith f ''.net'' \<longrightarrow> f @ ''-files'' = files_dir_of f)"
  using assms
  by (auto simp: createTemporaryProject_def creation_failed_def setCurrentFile_def Let_def
      files_dir_of_def split: sum.splits option.splits)

text \<open>
  C7 (as amended). Whenever \<^verbatim>\<open>loadProject\<close> or \<^verbatim>\<open>saveProjectAs\<close> succeeds or changes the
  project path, the files directory is the new path with a trailing \<^verbatim>\<open>.gns3\<close> (else a
  trailing \<^verbatim>\<open>.net\<close>) removed, followed by \<^verbatim>\<open>-files\<close>; a path that ends otherwise is kept
  whole. Whenever \<^verbatim>\<open>_createTemporaryProject\<close> creates its file, the files directory is the
  name of that file followed by \<^verbatim>\<open>-files\<close>, which is the same derivation for a name that ends
  in neither suffix.
\<close>

theorem files_dir_follows_path:
  "(loadProject env w path = (r, w', tr)
      \<and> (r = Returned (RBool True) \<or> project_path w' \<noteq> project_path w) \<longrightarrow>
        (\<exists>p. project_path w' = Some p \<and> project_files_dir w' = Some (files_dir_of p))
        \<and> (r = Returned (RBool True) \<longrightarrow> project_path w' = Some path))
   \<and> (saveProjectAs env w = (r2, w2, tr2)
      \<and> (r2 = Returned (RBool True) \<or> project_path w2 \<noteq> project_path w) \<longrightarrow>
        (\<exists>p. project_path w2 = Some p \<and> project_files_dir w2 = Some (files_dir_of p)))
   \<and> (\<not> creation_failed (fs env) \<longrightarrow>
        (\<exists>f. named_temporary_file (fs env) = Inr f
           \<and> project_path (fst (createTemporaryProject env w)) = Some f
           \<and> project_files_dir (fst (createTemporaryProject env w)) = Some (f @ ''-files'')
           \<and> (\<not> endswith f ''.gns3'' \<and> \<not> endswith f ''.net'' \<longrightarrow>
                f @ ''-files'' = files_dir_of f)))"
  using loadProject_path [of env w path r w' tr] saveProjectAs_path [of env w r2 w2 tr2]
    createTemporaryProject_path [of env w]
  by blast

lemma ext_lab_txt: "splitext_ext ''/home/u/lab.txt'' = ''.txt''"
  by (simp add: splitext_ext_def basename_def Let_def)

lemma load_txt_run:
  "loadProject env0 temp_window ''/home/u/lab.txt'' =
     (Returned (RBool True),
      temp_window\<lparr>temporary_project := False, project_path := Some ''/home/u/lab.txt'',
        project_files_dir := Some ''/home/u/lab.txt-files'',
        window_file_path := ''/home/u/lab.txt'', recent_files_store := [''/home/u/lab.txt'']\<rparr>,
      [ViewReset, Makedirs ''/home/u/lab.txt-files'',
       UpdateProjectFilesDir (Some ''/home/u/lab.txt-files''),
       TopologyLoad (JObj [(''resources_type'', JStr ''local'')]),
       LabInstructions ''/home/u''])"
proof -
  have ne: "splitext_ext ''/home/u/lab.txt'' \<noteq> ''.net''"
    by (simp add: ext_lab_txt)
  show ?thesis
    by (simp add: loadProject_plain [OF ne] load_descriptor_def env0_def fs0_def ext0_def
        files_dir_of_def endswith_def temp_window_def setCurrentFile_def
        updateRecentFileSettings_def updateRecentFileActions_def max_recent_files_def
        dirname_def basename_def rstrip_slash_def Let_def)
qed

text \<open>The claim as stated fails for a path with another extension: loading \<^verbatim>\<open>lab.txt\<close> sets
  the files directory to \<^verbatim>\<open>lab.txt-files\<close>, not to \<^verbatim>\<open>lab-files\<close>.\<close>

theorem files_dir_extension_counterexample:
  "splitext_ext ''/home/u/lab.txt'' = ''.txt''
   \<and> spec_files_dir ''/home/u/lab.txt'' = ''/home/u/lab-files''
   \<and> result_of (loadProject env0 temp_window ''/home/u/lab.txt'') = Returned (RBool True)
   \<and> project_path (window_of (loadProject env0 temp_window ''/home/u/lab.txt''))
       = Some ''/home/u/lab.txt''
   \<and> project_files_dir (window_of (loadProject env0 temp_window ''/home/u/lab.txt''))
       = Some ''/home/u/lab.txt-files''"
  by (simp add: load_txt_run result_of_def window_of_def spec_files_dir_def ext_lab_txt)

section \<open>Save as: move or copy, teardown, and the temporary flag\<close>

lemma create_dirs_events:
  "create_dirs f ds = (x, tr) \<Longrightarrow> e \<in> set tr \<Longrightarrow> \<exists>d. e = Makedirs d"
  by (induction ds arbitrary: x tr) (auto split: mk_result.splits prod.splits)

lemma create_dirs_clean:
  "create_dirs f ds = (x, tr) \<Longrightarrow> e \<in> set tr \<Longrightarrow> \<not> is_transfer e \<and> \<not> is_teardown e"
  by (auto dest: create_dirs_events)

lemma saveProject_events:
  "saveProject env w p = (r, w', tr) \<Longrightarrow> e \<in> set tr \<Longrightarrow>
     (\<exists>a b. e = Critical a b) \<or> (\<exists>q. e = WriteProject q)"
  by (auto simp: saveProject_def split: option.splits outcome.splits prod.splits)

lemma path_join_nonempty: "s \<noteq> [] \<Longrightarrow> path_join a (n @ s) \<noteq> []"
  using path_join_suffix [of a n s] by auto

lemma saveProject_temporary:
  assumes "saveProject env w (Some p) = (r, w', tr)" and "p \<noteq> []"
  shows "(r = Returned (RBool True) \<longrightarrow> \<not> temporary_project w')
       \<and> (r = Returned (RBool False) \<longrightarrow> w' = w)"
  using assms
  by (auto simp: saveProject_def setCurrentFile_def Let_def
      split: option.splits outcome.splits prod.splits if_splits)

lemma saveProjectAs_early:
  assumes "\<not> transfer_reached env w" and "saveProjectAs env w = (r, w', tr)"
  shows "w' = w \<and> r \<noteq> Returned (RBool True) \<and> r \<noteq> Returned (RBool False)
       \<and> (\<forall>e \<in> set tr. \<not> is_transfer e \<and> \<not> is_teardown e)"
  using assms
  by (auto simp: saveProjectAs_def transfer_reached_def Let_def
      split: option.splits mk_result.splits if_splits prod.splits
      dest: create_dirs_clean)

lemma saveProjectAs_reached:
  assumes "transfer_reached env w" and "saveProjectAs env w = (r, w', tr)"
  shows "\<exists>old_dir new_dir dirs msgs rest name p.
           project_files_dir w = Some old_dir
         \<and> tr = dirs @ ProcessFiles old_dir new_dir (temporary_project w) # msgs
                 @ deleteTemporaryProject w @ rest
         \<and> (\<forall>e \<in> set (dirs @ msgs @ rest). \<not> is_transfer e \<and> \<not> is_teardown e)
         \<and> saveProject env (w\<lparr>project_files_dir := Some new_dir, project_name := name\<rparr>) (Some p)
             = (r, w', rest)
         \<and> p \<noteq> []"
proof -
  obtain project_dir where dlg: "save_dialog (ui env) (default_project_name w) = Some project_dir"
    using assms(1) by (auto simp: transfer_reached_def split: option.splits)
  define name where "name = basename project_dir"
  define new_dir where "new_dir = path_join project_dir (name @ ''-files'')"
  define p where "p = path_join project_dir (name @ ''.gns3'')"
  obtain old_dir where old: "project_files_dir w = Some old_dir"
    using assms(1) dlg by (auto simp: transfer_reached_def Let_def split: option.splits)
  obtain tr2 where cd: "create_dirs (fs env) (sub_directories (fs env) old_dir new_dir) = (None, tr2)"
    using assms(1) dlg old
    by (cases "create_dirs (fs env) (sub_directories (fs env) old_dir new_dir)")
       (auto simp: transfer_reached_def Let_def new_dir_def name_def)
  define w1 where "w1 = w\<lparr>project_files_dir := Some new_dir, project_name := name\<rparr>"
  define dirs where "dirs = [Makedirs (projects_path (ext env)), Makedirs new_dir] @ tr2
      @ [UpdateProjectFilesDir (Some new_dir)]"
  define msgs where "msgs = (if transfer_errors (ext env) \<noteq> [] then
         [MessageBox ''Save project'' ''Errors detected while saving the project''
            (join_lines (transfer_errors (ext env)))] else [])"
  obtain r4 w4 tr4 where sp: "saveProject env w1 (Some p) = (r4, w4, tr4)"
    by (cases "saveProject env w1 (Some p)") auto
  have run: "saveProjectAs env w =
      (r4, w4, dirs @ ProcessFiles old_dir new_dir (temporary_project w) # msgs
               @ deleteTemporaryProject w @ tr4)"
    using assms(1) dlg old cd sp
    by (auto simp: saveProjectAs_def transfer_reached_def Let_def name_def [symmetric]
        new_dir_def [symmetric] p_def [symmetric] w1_def [symmetric] dirs_def msgs_def
        split: mk_result.splits)
  have clean: "\<forall>e \<in> set (dirs @ msgs @ tr4). \<not> is_transfer e \<and> \<not> is_teardown e"
    by (auto simp: dirs_def msgs_def
        dest!: create_dirs_events [OF cd] saveProject_events [OF sp])
  have "p \<noteq> []"
    unfolding p_def by (rule path_join_nonempty) simp
  moreover have "r = r4" "w' = w4"
    "tr = dirs @ ProcessFiles old_dir new_dir (temporary_project w) # msgs
               @ deleteTemporaryProject w @ tr4"
    using run assms(2) by simp_all
  ultimately show ?thesis
    using old clean sp unfolding w1_def
    by (intro exI [of _ old_dir] exI [of _ new_dir] exI [of _ dirs] exI [of _ msgs]
        exI [of _ tr4] exI [of _ name] exI [of _ p]) simp
qed

text \<open>
  C5 (as amended). A run of \<^verbatim>\<open>saveProjectAs\<close> that reaches the file transfer (no started node,
  the dialog accepted, every directory created or present) performs exactly one transfer,
  from the old files directory, which is a move exactly when the project was temporary and a
  copy otherwise; the removal of the old temporary project (present exactly when the project
  was temporary with a path) comes after the transfer. When the run hands back \<^verbatim>\<open>True\<close> the
  project is no longer temporary; when the final write fails and it hands back \<^verbatim>\<open>False\<close>,
  the temporary flag keeps its value. A run that does not reach the transfer transfers and
  removes nothing and leaves the window as it was.
\<close>

theorem saveProjectAs_transfer:
  assumes "saveProjectAs env w = (r, w', tr)"
  shows "(transfer_reached env w \<longrightarrow>
           (\<exists>old_dir new_dir dirs msgs rest.
               project_files_dir w = Some old_dir
             \<and> tr = dirs @ ProcessFiles old_dir new_dir (temporary_project w) # msgs
                     @ deleteTemporaryProject w @ rest
             \<and> (\<forall>e \<in> set (dirs @ msgs @ rest). \<not> is_transfer e \<and> \<not> is_teardown e))
           \<and> (r = Returned (RBool True) \<longrightarrow> \<not> temporary_project w')
           \<and> (r = Returned (RBool False) \<longrightarrow> temporary_project w' = temporary_project w))
       \<and> (\<not> transfer_reached env w \<longrightarrow>
             w' = w \<and> r \<noteq> Returned (RBool True) \<and> (\<forall>e \<in> set tr. \<not> is_transfer e \<and> \<not> is_teardown e))
       \<and> (temporary_project w \<and> truthy_str (project_path w) \<longrightarrow>
             deleteTemporaryProject w = [Rmtree (project_files_dir w), Remove (the (project_path w))])"
proof (intro conjI impI)
  assume t: "transfer_reached env w"
  from saveProjectAs_reached [OF t assms]
  obtain old_dir new_dir dirs msgs rest name p where
    s: "project_files_dir w = Some old_dir"
       "tr = dirs @ ProcessFiles old_dir new_dir (temporary_project w) # msgs
                 @ deleteTemporaryProject w @ rest"
       "\<forall>e \<in> set (dirs @ msgs @ rest). \<not> is_transfer e \<and> \<not> is_teardown e"
       "saveProject env (w\<lparr>project_files_dir := Some new_dir, project_name := name\<rparr>) (Some p)
             = (r, w', rest)"
       "p \<noteq> []"
    by blast
  from s(1-3) show "\<exists>old_dir new_dir dirs msgs rest.
               project_files_dir w = Some old_dir
             \<and> tr = dirs @ ProcessFiles old_dir new_dir (temporary_project w) # msgs
                     @ deleteTemporaryProject w @ rest
             \<and> (\<forall>e \<in> set (dirs @ msgs @ rest). \<not> is_transfer e \<and> \<not> is_teardown e)"
    by blast
  { assume "r = Returned (RBool True)"
    then show "\<not> temporary_project w'" using saveProject_temporary [OF s(4) s(5)] by simp }
  { assume "r = Returned (RBool False)"
    then show "temporary_project w' = temporary_project w"
      using saveProject_temporary [OF s(4) s(5)] by simp }
next
  assume n: "\<not> transfer_reached env w"
  from saveProjectAs_early [OF n assms]
  show "w' = w" and "r \<noteq> Returned (RBool True)"
    and "\<forall>e \<in> set tr. \<not> is_transfer e \<and> \<not> is_teardown e"
    by simp_all
next
  assume "temporary_project w \<and> truthy_str (project_path w)"
  then show "deleteTemporaryProject w = [Rmtree (project_files_dir w), Remove (the (project_path w))]"
    by (simp add: deleteTemporaryProject_def)
qed

section \<open>Sample runs\<close>

lemmas sample_defs = env0_def fs0_def ui0_def ext0_def srv0_def temp_window_def saved_window_def

lemmas path_defs = path_join_def basename_def dirname_def rstrip_slash_def endswith_def
  drop_last_def files_dir_of_def

lemmas recent_defs = setCurrentFile_def updateRecentFileSettings_def updateRecentFileActions_def
  max_recent_files_def

lemma save_as_temp_run:
  "saveProjectAs env0 temp_window =
     (Returned (RBool True),
      temp_window\<lparr>temporary_project := False, project_name := ''lab'',
        project_path := Some ''/home/u/projects/lab/lab.gns3'',
        project_files_dir := Some ''/home/u/projects/lab/lab-files'',
        window_file_path := ''/home/u/projects/lab/lab.gns3'',
        recent_files_store := [''/home/u/projects/lab/lab.gns3'']\<rparr>,
      [Makedirs ''/home/u/projects'', Makedirs ''/home/u/projects/lab/lab-files'',
       UpdateProjectFilesDir (Some ''/home/u/projects/lab/lab-files''),
       ProcessFiles ''/tmp/gns3-old-files'' ''/home/u/projects/lab/lab-files'' True,
       Rmtree (Some ''/tmp/gns3-old-files''), Remove ''/tmp/gns3-old'',
       WriteProject ''/home/u/projects/lab/lab.gns3''])"
  by (simp add: saveProjectAs_def saveProject_def deleteTemporaryProject_def sub_directories_def
      running_node_names_def default_project_name_def sample_defs path_defs recent_defs Let_def)

lemma save_as_write_fails_run:
  "saveProjectAs env_write_fails temp_window =
     (Returned (RBool False),
      temp_window\<lparr>project_name := ''lab'',
        project_files_dir := Some ''/home/u/projects/lab/lab-files''\<rparr>,
      [Makedirs ''/home/u/projects'', Makedirs ''/home/u/projects/lab/lab-files'',
       UpdateProjectFilesDir (Some ''/home/u/projects/lab/lab-files''),
       ProcessFiles ''/tmp/gns3-old-files'' ''/home/u/projects/lab/lab-files'' True,
       Rmtree (Some ''/tmp/gns3-old-files''), Remove ''/tmp/gns3-old'',
       Critical ''Save''
         ''Could not save project to /home/u/projects/lab/lab.gns3: Permission denied''])"
  by (simp add: saveProjectAs_def saveProject_def deleteTemporaryProject_def sub_directories_def
      running_node_names_def default_project_name_def env_write_fails_def sample_defs path_defs
      recent_defs Let_def)

lemma save_as_saved_run:
  "saveProjectAs env0 saved_window =
     (Returned (RBool True),
      saved_window\<lparr>project_name := ''lab'',
        project_path := Some ''/home/u/projects/lab/lab.gns3'',
        project_files_dir := Some ''/home/u/projects/lab/lab-files'',
        window_file_path := ''/home/u/projects/lab/lab.gns3'',
        recent_files_store := [''/home/u/projects/lab/lab.gns3'', ''/home/u/projects/old/old.gns3'']\<rparr>,
      [Makedirs ''/home/u/projects'', Makedirs ''/home/u/projects/lab/lab-files'',
       UpdateProjectFilesDir (Some ''/home/u/projects/lab/lab-files''),
       ProcessFiles ''/home/u/projects/old/old-files'' ''/home/u/projects/lab/lab-files'' False,
       WriteProject ''/home/u/projects/lab/lab.gns3''])"
  by (simp add: saveProjectAs_def saveProject_def deleteTemporaryProject_def sub_directories_def
      running_node_names_def default_project_name_def sample_defs path_defs recent_defs Let_def)

lemma reached_temp: "transfer_reached env0 temp_window"
  by (simp add: transfer_reached_def sub_directories_def running_node_names_def
      default_project_name_def sample_defs path_defs Let_def)

lemma reached_saved: "transfer_reached env0 saved_window"
  by (simp add: transfer_reached_def sub_directories_def running_node_names_def
      default_project_name_def sample_defs path_defs Let_def)

theorem saveProjectAs_transfer_witness:
  "transfer_reached env0 temp_window
   \<and> temporary_project temp_window
   \<and> ProcessFiles ''/tmp/gns3-old-files'' ''/home/u/projects/lab/lab-files'' True
       \<in> set (trace_of (saveProjectAs env0 temp_window))
   \<and> deleteTemporaryProject temp_window = [Rmtree (Some ''/tmp/gns3-old-files''), Remove ''/tmp/gns3-old'']
   \<and> \<not> temporary_project (window_of (saveProjectAs env0 temp_window))
   \<and> transfer_reached env0 saved_window
   \<and> \<not> temporary_project saved_window
   \<and> ProcessFiles ''/home/u/projects/old/old-files'' ''/home/u/projects/lab/lab-files'' False
       \<in> set (trace_of (saveProjectAs env0 saved_window))
   \<and> \<not> temporary_project (window_of (saveProjectAs env0 saved_window))"
proof -
  note t = saveProjectAs_transfer [OF save_as_temp_run]
  note s = saveProjectAs_transfer [OF save_as_saved_run]
  have t1: "\<not> temporary_project (window_of (saveProjectAs env0 temp_window))"
    using t reached_temp unfolding window_of_def save_as_temp_run by simp
  have s1: "\<not> temporary_project (window_of (saveProjectAs env0 saved_window))"
    using s reached_saved unfolding window_of_def save_as_saved_run by simp
  have t2: "ProcessFiles ''/tmp/gns3-old-files'' ''/home/u/projects/lab/lab-files'' True
       \<in> set (trace_of (saveProjectAs env0 temp_window))"
    unfolding trace_of_def save_as_temp_run by simp
  have s2: "ProcessFiles ''/home/u/projects/old/old-files'' ''/home/u/projects/lab/lab-files'' False
       \<in> set (trace_of (saveProjectAs env0 saved_window))"
    unfolding trace_of_def save_as_saved_run by simp
  have t3: "temporary_project temp_window" "\<not> temporary_project saved_window"
    by (simp_all add: temp_window_def saved_window_def)
  have t4: "deleteTemporaryProject temp_window
      = [Rmtree (Some ''/tmp/gns3-old-files''), Remove ''/tmp/gns3-old'']"
    by (simp add: deleteTemporaryProject_def temp_window_def)
  show ?thesis
    using t1 s1 t2 s2 t3 t4 reached_temp reached_saved by (intro conjI)
qed

text \<open>The claim as stated fails when the descriptor cannot be written: the run passed the
  node check and the dialog, moved the files and removed the temporary project, and the
  project is still marked temporary.\<close>

theorem saveProjectAs_write_failure_counterexample:
  "running_node_names (topology_nodes (ext env_write_fails)) = []
   \<and> save_dialog (ui env_write_fails) (default_project_name temp_window) = Some ''/home/u/projects/lab''
   \<and> result_of (saveProjectAs env_write_fails temp_window) = Returned (RBool False)
   \<and> ProcessFiles ''/tmp/gns3-old-files'' ''/home/u/projects/lab/lab-files'' True
       \<in> set (trace_of (saveProjectAs env_write_fails temp_window))
   \<and> temporary_project (window_of (saveProjectAs env_write_fails temp_window))"
proof -
  have a: "running_node_names (topology_nodes (ext env_write_fails)) = []"
    by (simp add: env_write_fails_def sample_defs running_node_names_def)
  have b: "save_dialog (ui env_write_fails) (default_project_name temp_window)
      = Some ''/home/u/projects/lab''"
    by (simp add: env_write_fails_def sample_defs)
  have c: "result_of (saveProjectAs env_write_fails temp_window) = Returned (RBool False)"
    unfolding result_of_def save_as_write_fails_run by simp
  have d: "ProcessFiles ''/tmp/gns3-old-files'' ''/home/u/projects/lab/lab-files'' True
       \<in> set (trace_of (saveProjectAs env_write_fails temp_window))"
    unfolding trace_of_def save_as_write_fails_run by simp
  have e: "temporary_project (window_of (saveProjectAs env_write_fails temp_window))"
    unfolding window_of_def save_as_write_fails_run by (simp add: temp_window_def)
  show ?thesis
    using a b c d e by (intro conjI)
qed

lemma load_gns3_run:
  "loadProject env0 temp_window ''/home/u/projects/lab/lab.gns3'' =
     (Returned (RBool True),
      temp_window\<lparr>temporary_project := False,
        project_path := Some ''/home/u/projects/lab/lab.gns3'',
        project_files_dir := Some ''/home/u/projects/lab/lab-files'',
        window_file_path := ''/home/u/projects/lab/lab.gns3'',
        recent_files_store := [''/home/u/projects/lab/lab.gns3'']\<rparr>,
      [ViewReset, Makedirs ''/home/u/projects/lab/lab-files'',
       UpdateProjectFilesDir (Some ''/home/u/projects/lab/lab-files''),
       TopologyLoad (JObj [(''resources_type'', JStr ''local'')]),
       LabInstructions ''/home/u/projects/lab''])"
  by (simp add: loadProject_plain [OF ext_lab_gns3] load_descriptor_def sample_defs path_defs
      recent_defs Let_def)

lemma create_temp_ok: "\<not> creation_failed (fs env0)"
  by (simp add: creation_failed_def sample_defs)

theorem files_dir_follows_path_witness:
  "project_path (window_of (loadProject env0 temp_window ''/home/u/projects/lab/lab.gns3''))
     = Some ''/home/u/projects/lab/lab.gns3''
   \<and> project_files_dir (window_of (loadProject env0 temp_window ''/home/u/projects/lab/lab.gns3''))
     = Some (files_dir_of ''/home/u/projects/lab/lab.gns3'')
   \<and> project_files_dir (window_of (saveProjectAs env0 temp_window))
     = Some (files_dir_of ''/home/u/projects/lab/lab.gns3'')
   \<and> project_files_dir (fst (createTemporaryProject env0 saved_window))
     = Some (files_dir_of ''/tmp/gns3-k3j2x9'')"
proof -
  note t = files_dir_follows_path [of env0 temp_window "''/home/u/projects/lab/lab.gns3''"
      "Returned (RBool True)" _ _ "Returned (RBool True)"]
  have l: "project_path (window_of (loadProject env0 temp_window ''/home/u/projects/lab/lab.gns3''))
        = Some ''/home/u/projects/lab/lab.gns3''
      \<and> project_files_dir (window_of (loadProject env0 temp_window ''/home/u/projects/lab/lab.gns3''))
        = Some (files_dir_of ''/home/u/projects/lab/lab.gns3'')"
    using t [THEN conjunct1, rule_format, OF conjI [OF load_gns3_run disjI1 [OF refl]]]
    unfolding window_of_def load_gns3_run by auto
  have s: "project_files_dir (window_of (saveProjectAs env0 temp_window))
        = Some (files_dir_of ''/home/u/projects/lab/lab.gns3'')"
    using t [THEN conjunct2, THEN conjunct1, rule_format, OF conjI [OF save_as_temp_run disjI1 [OF refl]]]
    unfolding window_of_def save_as_temp_run by auto
  have n: "named_temporary_file (fs env0) = Inr ''/tmp/gns3-k3j2x9''"
    by (simp add: sample_defs)
  have e: "\<not> endswith ''/tmp/gns3-k3j2x9'' ''.gns3'' \<and> \<not> endswith ''/tmp/gns3-k3j2x9'' ''.net''"
    by (simp add: endswith_def)
  have c: "project_files_dir (fst (createTemporaryProject env0 saved_window))
        = Some (files_dir_of ''/tmp/gns3-k3j2x9'')"
    using files_dir_follows_path [of env0 saved_window, THEN conjunct2, THEN conjunct2, rule_format,
        OF create_temp_ok] n e
    by auto
  show ?thesis
    using l s c by (intro conjI) simp_all
qed

section \<open>Which effects the project methods can have\<close>

lemma saveProject_quiet:
  "saveProject env w p = (r, w', tr) \<Longrightarrow> e \<in> set tr \<Longrightarrow>
     \<not> is_signal e \<and> \<not> is_teardown e \<and> \<not> is_transfer e"
  by (auto dest: saveProject_events)

lemma create_dirs_no_signal:
  "create_dirs f ds = (x, tr) \<Longrightarrow> e \<in> set tr \<Longrightarrow> \<not> is_signal e"
  by (auto dest: create_dirs_events)

lemma deleteTemporaryProject_no_signal: "e \<in> set (deleteTemporaryProject w) \<Longrightarrow> \<not> is_signal e"
  by (auto simp: deleteTemporaryProject_def split: if_splits)

lemma saveProjectAs_no_signal:
  assumes "saveProjectAs env w = (r, w', tr)" and "e \<in> set tr"
  shows "\<not> is_signal e"
  using assms
  by (auto simp: saveProjectAs_def Let_def
      split: option.splits mk_result.splits if_splits prod.splits
      dest: create_dirs_no_signal saveProject_quiet deleteTemporaryProject_no_signal)

lemma check_no_signal:
  assumes "checkForUnsavedChanges env w = (r, w', tr)" and "e \<in> set tr"
  shows "\<not> is_signal e"
  using assms
  by (auto simp: checkForUnsavedChanges_def
      split: if_splits reply.splits
      dest: saveProjectAs_no_signal saveProject_quiet deleteTemporaryProject_no_signal)

lemma load_descriptor_quiet:
  assumes "load_descriptor env w path = (r, w', tr)" and "e \<in> set tr"
  shows "\<not> is_signal e \<and> \<not> is_teardown e"
  using assms
  by (auto simp: load_descriptor_def Let_def
      split: read_result.splits option.splits outcome.splits topo_result.splits if_splits
        prod.splits)

lemma conversion_target_quiet:
  "conversion_target env path = Inl tr \<Longrightarrow> e \<in> set tr \<Longrightarrow> \<not> is_signal e \<and> \<not> is_teardown e"
  "conversion_target env path = Inr (c, tr) \<Longrightarrow> e \<in> set tr \<Longrightarrow> \<not> is_signal e \<and> \<not> is_teardown e"
  by (auto simp: conversion_target_def split: if_splits option.splits conv_result.splits)

lemma loadProject_quiet:
  assumes "loadProject env w path = (r, w', tr)" and "e \<in> set tr"
  shows "\<not> is_signal e \<and> \<not> is_teardown e"
proof (cases "splitext_ext path = ''.net''")
  case True
  show ?thesis
    using assms loadProject_net [OF True, of env w]
    by (auto split: sum.splits prod.splits outcome.splits
        dest: load_descriptor_quiet conversion_target_quiet)
next
  case False
  show ?thesis
    using assms loadProject_plain [OF False, of env w]
    by (auto split: prod.splits dest: load_descriptor_quiet)
qed


section \<open>Opening a legacy project\<close>

lemma loadProject_net_result:
  assumes "splitext_ext path = ''.net''"
  shows "result_of (loadProject env w path) = Returned RNone
       \<or> (\<exists>x. result_of (loadProject env w path) = Raised x)"
  using loadProject_net [OF assms, of env w]
  by (auto simp: result_of_def split: sum.splits prod.splits outcome.splits)

text \<open>
  C9. For a path whose extension is \<^verbatim>\<open>.net\<close>, \<^verbatim>\<open>loadProject\<close> never hands back a true value: it
  hands back \<^verbatim>\<open>None\<close> whatever the conversion and the nested load of the converted project
  did (or passes on the exception the nested load raised). So \<^verbatim>\<open>openProjectActionSlot\<close> and
  \<^verbatim>\<open>openRecentFileSlot\<close>, which emit the new-project signal only on a true value, never emit
  it for such a path.
\<close>

theorem loadProject_legacy:
  assumes "splitext_ext path = ''.net''"
  shows "\<not> truthy (result_of (loadProject env w path))
       \<and> (result_of (loadProject env w path) = Returned RNone
            \<or> (\<exists>x. result_of (loadProject env w path) = Raised x))
       \<and> (open_dialog (ui env) = path \<longrightarrow>
            (\<forall>q. EmitNew q \<notin> set (trace_of (openProjectActionSlot env w))))
       \<and> (\<forall>q. EmitNew q \<notin> set (trace_of (openRecentFileSlot env w path)))"
proof -
  have res: "\<And>w. result_of (loadProject env w path) = Returned RNone
       \<or> (\<exists>x. result_of (loadProject env w path) = Raised x)"
    using assms by (rule loadProject_net_result)
  have nt: "\<And>w. \<not> truthy (result_of (loadProject env w path))"
    using res by (metis truthy.simps(2,3))
  have quiet: "\<And>w1 r2 w2 tr2 q. loadProject env w1 path = (r2, w2, tr2) \<Longrightarrow> EmitNew q \<notin> set tr2"
    using loadProject_quiet by fastforce
  have quiet1: "\<And>r1 w1 tr1 q. checkForUnsavedChanges env w = (r1, w1, tr1) \<Longrightarrow> EmitNew q \<notin> set tr1"
    using check_no_signal by fastforce
  have nt': "\<And>w1 v w2 tr2. loadProject env w1 path = (Returned v, w2, tr2) \<Longrightarrow> \<not> truthy (Returned v)"
    using nt by (metis fst_conv result_of_def)
  have o: "open_dialog (ui env) = path \<Longrightarrow> EmitNew q \<notin> set (trace_of (openProjectActionSlot env w))" for q
    using quiet quiet1 nt'
    by (auto simp: openProjectActionSlot_def trace_of_def Let_def
        split: prod.splits outcome.splits if_splits)
  have rc: "EmitNew q \<notin> set (trace_of (openRecentFileSlot env w path))" for q
    using quiet quiet1 nt'
    by (auto simp: openRecentFileSlot_def trace_of_def Let_def
        split: prod.splits outcome.splits if_splits)
  show ?thesis
    using res nt o rc by blast
qed

lemma ext_topology_net: "splitext_ext ''/home/u/old/topology.net'' = ''.net''"
  by (simp add: splitext_ext_def basename_def Let_def)

lemma legacy_target:
  "conversion_target env_legacy ''/home/u/old/topology.net'' =
     Inr (''/home/u/projects/old/old.gns3'',
          [Convert ''/home/u/old/topology.net'' ''old'' ''/home/u/projects/old'',
           Information ''GNS3 converter''
             ''Your project has been converted to a new format and can be found in: /home/u/projects/old''])"
  by (simp add: conversion_target_def env_legacy_def sample_defs path_defs Let_def)

lemma legacy_descriptor:
  "load_descriptor env_legacy temp_window ''/home/u/projects/old/old.gns3'' =
     (Returned (RBool True),
      temp_window\<lparr>temporary_project := False,
        project_path := Some ''/home/u/projects/old/old.gns3'',
        project_files_dir := Some ''/home/u/projects/old/old-files'',
        window_file_path := ''/home/u/projects/old/old.gns3'',
        recent_files_store := [''/home/u/projects/old/old.gns3'']\<rparr>,
      [Makedirs ''/home/u/projects/old/old-files'',
       UpdateProjectFilesDir (Some ''/home/u/projects/old/old-files''),
       TopologyLoad (JObj [(''resources_type'', JStr ''local'')]),
       LabInstructions ''/home/u/projects/old''])"
  by (simp add: load_descriptor_def env_legacy_def sample_defs path_defs recent_defs Let_def)

lemma legacy_load_run:
  "loadProject env_legacy temp_window ''/home/u/old/topology.net'' =
     (Returned RNone,
      temp_window\<lparr>temporary_project := False,
        project_path := Some ''/home/u/projects/old/old.gns3'',
        project_files_dir := Some ''/home/u/projects/old/old-files'',
        window_file_path := ''/home/u/projects/old/old.gns3'',
        recent_files_store := [''/home/u/projects/old/old.gns3'']\<rparr>,
      [ViewReset,
       Convert ''/home/u/old/topology.net'' ''old'' ''/home/u/projects/old'',
       Information ''GNS3 converter''
         ''Your project has been converted to a new format and can be found in: /home/u/projects/old'',
       ViewReset,
       Makedirs ''/home/u/projects/old/old-files'',
       UpdateProjectFilesDir (Some ''/home/u/projects/old/old-files''),
       TopologyLoad (JObj [(''resources_type'', JStr ''local'')]),
       LabInstructions ''/home/u/projects/old''])"
  by (simp add: loadProject_net [OF ext_topology_net] legacy_target legacy_descriptor)

lemma check_temp_run:
  "checkForUnsavedChanges env temp_window =
     (Returned (RBool True), temp_window,
      [Rmtree (Some ''/tmp/gns3-old-files''), Remove ''/tmp/gns3-old''])"
  by (simp add: checkForUnsavedChanges_def deleteTemporaryProject_def temp_window_def)

lemma legacy_open_run:
  "openProjectActionSlot env_legacy temp_window =
     (Returned (),
      temp_window\<lparr>temporary_project := False,
        project_path := Some ''/home/u/projects/old/old.gns3'',
        project_files_dir := Some ''/home/u/projects/old/old-files'',
        window_file_path := ''/home/u/projects/old/old.gns3'',
        recent_files_store := [''/home/u/projects/old/old.gns3'']\<rparr>,
      [Rmtree (Some ''/tmp/gns3-old-files''), Remove ''/tmp/gns3-old'',
       EmitAboutToClose (Some ''/tmp/gns3-old''),
       ViewReset,
       Convert ''/home/u/old/topology.net'' ''old'' ''/home/u/projects/old'',
       Information ''GNS3 converter''
         ''Your project has been converted to a new format and can be found in: /home/u/projects/old'',
       ViewReset,
       Makedirs ''/home/u/projects/old/old-files'',
       UpdateProjectFilesDir (Some ''/home/u/projects/old/old-files''),
       TopologyLoad (JObj [(''resources_type'', JStr ''local'')]),
       LabInstructions ''/home/u/projects/old''])"
proof -
  have d: "open_dialog (ui env_legacy) = ''/home/u/old/topology.net''"
    by (simp add: env_legacy_def sample_defs)
  have p: "project_path temp_window = Some ''/tmp/gns3-old''"
    by (simp add: temp_window_def)
  show ?thesis
    by (simp add: openProjectActionSlot_def d check_temp_run legacy_load_run p)
qed

theorem loadProject_legacy_witness:
  "splitext_ext ''/home/u/old/topology.net'' = ''.net''
   \<and> result_of (loadProject env_legacy temp_window ''/home/u/old/topology.net'') = Returned RNone
   \<and> project_path (window_of (loadProject env_legacy temp_window ''/home/u/old/topology.net''))
       = Some ''/home/u/projects/old/old.gns3''
   \<and> TopologyLoad (JObj [(''resources_type'', JStr ''local'')])
       \<in> set (trace_of (loadProject env_legacy temp_window ''/home/u/old/topology.net''))
   \<and> EmitAboutToClose (Some ''/tmp/gns3-old'')
       \<in> set (trace_of (openProjectActionSlot env_legacy temp_window))
   \<and> EmitNew (Some ''/home/u/old/topology.net'')
       \<notin> set (trace_of (openProjectActionSlot env_legacy temp_window))"
proof -
  note t = loadProject_legacy [OF ext_topology_net, of env_legacy temp_window]
  have d: "open_dialog (ui env_legacy) = ''/home/u/old/topology.net''"
    by (simp add: env_legacy_def sample_defs)
  have a: "EmitNew (Some ''/home/u/old/topology.net'')
       \<notin> set (trace_of (openProjectActionSlot env_legacy temp_window))"
    using t d by blast
  have b: "result_of (loadProject env_legacy temp_window ''/home/u/old/topology.net'') = Returned RNone"
    unfolding result_of_def legacy_load_run by simp
  have c: "project_path (window_of (loadProject env_legacy temp_window ''/home/u/old/topology.net''))
       = Some ''/home/u/projects/old/old.gns3''"
    unfolding window_of_def legacy_load_run by simp
  have e: "TopologyLoad (JObj [(''resources_type'', JStr ''local'')])
       \<in> set (trace_of (loadProject env_legacy temp_window ''/home/u/old/topology.net''))"
    unfolding trace_of_def legacy_load_run by simp
  have f: "EmitAboutToClose (Some ''/tmp/gns3-old'')
       \<in> set (trace_of (openProjectActionSlot env_legacy temp_window))"
    unfolding trace_of_def legacy_open_run by simp
  show ?thesis
    using a b c e f ext_topology_net by (intro conjI)
qed

section \<open>The closing signal comes before the new-project signal\<close>














end
